theory Spec2Isabelle
  imports Complex_Main "HOL-Library.Word" "HOL-Library.List_Lexorder" "HOL-Library.Sublist"
    "HOL-Library.Option_ord"
begin

section \<open>JavaScript values\<close>

text \<open>
  A JavaScript string is a sequence of UTF-16 code units: \<open>s.length\<close> counts them and
  \<open><\<close> compares them lexicographically. The five mood symbols lie outside the Basic
  Multilingual Plane, so each of them is a surrogate pair of two code units.
\<close>

type_synonym jsstring = "16 word list"

definition ustr :: "string \<Rightarrow> jsstring" where
  "ustr s = map (\<lambda>c. of_nat (of_char c)) s"

text \<open>
  The values a field of a request body can hold. Numbers are the integral ones; \<open>NaN\<close>,
  fractions, arrays and objects are not covered.
\<close>

datatype jsval = JUndefined | JNull | JBool bool | JNum int | JStr jsstring

fun truthy :: "jsval \<Rightarrow> bool" where
  "truthy JUndefined = False"
| "truthy JNull = False"
| "truthy (JBool b) = b"
| "truthy (JNum n) = (n \<noteq> 0)"
| "truthy (JStr s) = (s \<noteq> [])"

fun isString :: "jsval \<Rightarrow> bool" where
  "isString (JStr s) = True"
| "isString v = False"

text \<open>\<open>a || b\<close>\<close>

definition js_or :: "jsval \<Rightarrow> jsval \<Rightarrow> jsval" where
  "js_or a b = (if truthy a then a else b)"

text \<open>\<open>Array.prototype.join\<close> on an array of strings.\<close>

fun join :: "jsstring \<Rightarrow> jsstring list \<Rightarrow> jsstring" where
  "join sep [] = []"
| "join sep [x] = x"
| "join sep (x # y # ys) = x @ sep @ join sep (y # ys)"

text \<open>\<open>String.prototype.split\<close> with a one-unit separator.\<close>

fun split :: "16 word \<Rightarrow> jsstring \<Rightarrow> jsstring list" where
  "split sep [] = [[]]"
| "split sep (c # cs) =
     (if c = sep then [] # split sep cs
      else (case split sep cs of [] \<Rightarrow> [[c]] | p # ps \<Rightarrow> (c # p) # ps))"

text \<open>\<open>String.prototype.includes\<close>: the argument occurs as a contiguous run.\<close>

definition includes_str :: "jsstring \<Rightarrow> jsstring \<Rightarrow> bool" where
  "includes_str s sub = sublist sub s"

definition isDigit :: "16 word \<Rightarrow> bool" where
  "isDigit c = (0x30 \<le> c \<and> c \<le> 0x39)"

definition hyphen :: "16 word" where
  "hyphen = 0x2D"

text \<open>
  \<open>Number(s)\<close> for a string of decimal digits, the only strings the validators pass
  to it.
\<close>

definition Number :: "jsstring \<Rightarrow> int" where
  "Number s = foldl (\<lambda>n c. 10 * n + (uint c - 48)) 0 s"

section \<open>The Date object\<close>

text \<open>
  Time values are milliseconds since the epoch, in UTC; the day and year arithmetic is the
  one ECMAScript defines for \<open>Date\<close>. An invalid date has the time value \<open>NaN\<close>, here
  \<open>None\<close>. The local time zone is not part of the program: it is the parameter
  \<open>tza\<close>, the offset of local time from UTC in milliseconds.
\<close>

definition msPerDay :: int where
  "msPerDay = 86400000"

definition Day :: "int \<Rightarrow> int" where
  "Day t = t div msPerDay"


definition DaysInYear :: "int \<Rightarrow> int" where
  "DaysInYear y =
     (if y mod 4 \<noteq> 0 then 365 else if y mod 100 \<noteq> 0 then 366
      else if y mod 400 \<noteq> 0 then 365 else 366)"

definition DayFromYear :: "int \<Rightarrow> int" where
  "DayFromYear y =
     365 * (y - 1970) + (y - 1969) div 4 - (y - 1901) div 100 + (y - 1601) div 400"

lemma div_succ:
  fixes a k :: int
  assumes "0 < k"
  shows "(a + 1) div k = a div k + (if (a + 1) mod k = 0 then 1 else 0)"
proof (cases "(a + 1) mod k = 0")
  case True
  then obtain q where q: "a + 1 = k * q" by auto
  then have a: "a = k * (q - 1) + (k - 1)" by (simp add: algebra_simps)
  have "a div k = q - 1"
    using assms by (subst a) (simp add: div_pos_pos_trivial)
  moreover have "(a + 1) div k = q" using q assms by simp
  ultimately show ?thesis using True by simp
next
  case False
  have "a mod k + 1 < k"
  proof -
    have "a mod k < k" using assms by simp
    moreover have "a mod k + 1 \<noteq> k"
    proof
      assume "a mod k + 1 = k"
      then have "(a + 1) mod k = 0"
        by (metis mod_add_left_eq mod_self)
      with False show False by simp
    qed
    ultimately show ?thesis by simp
  qed
  moreover have "0 \<le> a mod k" using assms by simp
  ultimately have small: "(a mod k + 1) div k = 0" by (simp add: div_pos_pos_trivial)
  have "(a + 1) div k = ((a mod k + 1) + k * (a div k)) div k" by (simp add: algebra_simps)
  also have "\<dots> = a div k + (a mod k + 1) div k"
    using assms by (subst div_mult_self2) simp_all
  finally show ?thesis using False small by simp
qed

lemma mod_shift: "((y::int) - k * c) mod k = y mod k"
  by (metis mod_diff_right_eq mod_mult_self1_is_0 diff_zero mod_mod_trivial)

lemma mod_100_4: "(y::int) mod 100 = 0 \<Longrightarrow> y mod 4 = 0"
proof -
  assume "y mod 100 = 0"
  then have "100 dvd y" by auto
  moreover have "(4::int) dvd 100" by simp
  ultimately have "4 dvd y" using dvd_trans by blast
  then show ?thesis by simp
qed

lemma mod_400_100: "(y::int) mod 400 = 0 \<Longrightarrow> y mod 100 = 0"
proof -
  assume "y mod 400 = 0"
  then have "400 dvd y" by auto
  moreover have "(100::int) dvd 400" by simp
  ultimately have "100 dvd y" using dvd_trans by blast
  then show ?thesis by simp
qed

lemma DayFromYear_step: "DayFromYear (y + 1) = DayFromYear y + DaysInYear y"
proof -
  have m4: "(y - 1968) mod 4 = 0 \<longleftrightarrow> y mod 4 = 0"
    using mod_shift [of y 4 492] by simp
  have m100: "(y - 1900) mod 100 = 0 \<longleftrightarrow> y mod 100 = 0"
    using mod_shift [of y 100 19] by simp
  have m400: "(y - 1600) mod 400 = 0 \<longleftrightarrow> y mod 400 = 0"
    using mod_shift [of y 400 4] by simp
  have a: "(y + 1 - 1969) div 4 = (y - 1969) div 4 + (if y mod 4 = 0 then 1 else 0)"
    using div_succ [of 4 "y - 1969"] m4 by (simp add: algebra_simps)
  have b: "(y + 1 - 1901) div 100 = (y - 1901) div 100 + (if y mod 100 = 0 then 1 else 0)"
    using div_succ [of 100 "y - 1901"] m100 by (simp add: algebra_simps)
  have c: "(y + 1 - 1601) div 400 = (y - 1601) div 400 + (if y mod 400 = 0 then 1 else 0)"
    using div_succ [of 400 "y - 1601"] m400 by (simp add: algebra_simps)
  show ?thesis
    unfolding DayFromYear_def DaysInYear_def a b c
    using mod_100_4 [of y] mod_400_100 [of y] by (auto simp: algebra_simps)
qed

lemma DaysInYear_bounds: "365 \<le> DaysInYear y \<and> DaysInYear y \<le> 366"
  by (simp add: DaysInYear_def)

lemma DayFromYear_1970: "DayFromYear 1970 = 0"
  by (simp add: DayFromYear_def)

lemma DayFromYear_upper: "1970 \<le> y \<Longrightarrow> DayFromYear y \<le> 366 * (y - 1970)"
proof (induction y rule: int_ge_induct)
  case base
  show ?case by (simp add: DayFromYear_1970)
next
  case (step i)
  then show ?case
    using DayFromYear_step [of i] DaysInYear_bounds [of i] by simp
qed

lemma DayFromYear_lower: "y \<le> 1970 \<Longrightarrow> DayFromYear y \<le> 365 * (y - 1970)"
proof (induction y rule: int_le_induct)
  case base
  show ?case by (simp add: DayFromYear_1970)
next
  case (step i)
  then show ?case
    using DayFromYear_step [of "i - 1"] DaysInYear_bounds [of "i - 1"] by simp
qed

lemma est_nonneg: "0 \<le> d \<Longrightarrow> DayFromYear (1970 + d div 366) \<le> d"
proof -
  assume d: "0 \<le> d"
  then have "0 \<le> d div 366" by simp
  then have "DayFromYear (1970 + d div 366) \<le> 366 * (d div 366)"
    using DayFromYear_upper [of "1970 + d div 366"] by simp
  also have "\<dots> \<le> d" by (simp add: mult.commute)
  finally show ?thesis .
qed

lemma est_neg: "d < 0 \<Longrightarrow> DayFromYear (1970 + d div 365) \<le> d"
proof -
  assume d: "d < 0"
  then have "d div 365 \<le> 0" by simp
  then have "DayFromYear (1970 + d div 365) \<le> 365 * (d div 365)"
    using DayFromYear_lower [of "1970 + d div 365"] by simp
  also have "\<dots> \<le> d" by (simp add: mult.commute)
  finally show ?thesis .
qed

text \<open>
  \<open>YearFromTime(t)\<close> is the largest year whose first day is not after \<open>t\<close>. The search
  starts at a year that is certainly not too late and walks up.
\<close>

function yearUp :: "int \<Rightarrow> int \<Rightarrow> int" where
  "yearUp y d = (if DayFromYear (y + 1) \<le> d then yearUp (y + 1) d else y)"
  by pat_completeness auto
termination
proof (relation "measure (\<lambda>(y, d). nat (d - DayFromYear (y + 1) + 1))")
  show "wf (measure (\<lambda>(y, d). nat (d - DayFromYear (y + 1) + 1)))" by simp
next
  fix y d :: int
  assume "DayFromYear (y + 1) \<le> d"
  moreover have "DayFromYear (y + 1 + 1) = DayFromYear (y + 1) + DaysInYear (y + 1)"
    by (rule DayFromYear_step)
  ultimately show "((y + 1, d), (y, d)) \<in> measure (\<lambda>(y, d). nat (d - DayFromYear (y + 1) + 1))"
    using DaysInYear_bounds [of "y + 1"] by simp
qed

declare yearUp.simps [simp del]

definition YearFromDay :: "int \<Rightarrow> int" where
  "YearFromDay d = yearUp (1970 + (if 0 \<le> d then d div 366 else d div 365)) d"

definition YearFromTime :: "int \<Rightarrow> int" where
  "YearFromTime t = YearFromDay (Day t)"

definition InLeapYear :: "int \<Rightarrow> int" where
  "InLeapYear t = (if DaysInYear (YearFromTime t) = 366 then 1 else 0)"

definition DayWithinYear :: "int \<Rightarrow> int" where
  "DayWithinYear t = Day t - DayFromYear (YearFromTime t)"

definition MonthFromTime :: "int \<Rightarrow> int" where
  "MonthFromTime t =
     (let d = DayWithinYear t; l = InLeapYear t in
      if d < 31 then 0
      else if d < 59 + l then 1
      else if d < 90 + l then 2
      else if d < 120 + l then 3
      else if d < 151 + l then 4
      else if d < 181 + l then 5
      else if d < 212 + l then 6
      else if d < 243 + l then 7
      else if d < 273 + l then 8
      else if d < 304 + l then 9
      else if d < 334 + l then 10
      else 11)"

definition DateFromTime :: "int \<Rightarrow> int" where
  "DateFromTime t =
     (let d = DayWithinYear t; l = InLeapYear t; m = MonthFromTime t in
      if m = 0 then d + 1
      else if m = 1 then d - 30
      else if m = 2 then d - 58 - l
      else if m = 3 then d - 89 - l
      else if m = 4 then d - 119 - l
      else if m = 5 then d - 150 - l
      else if m = 6 then d - 180 - l
      else if m = 7 then d - 211 - l
      else if m = 8 then d - 242 - l
      else if m = 9 then d - 272 - l
      else if m = 10 then d - 303 - l
      else d - 333 - l)"

text \<open>The number of days from the first of January to the first of month \<open>mn\<close> (0-based).\<close>

definition monthOffset :: "int \<Rightarrow> int \<Rightarrow> int" where
  "monthOffset l mn =
     (if mn = 0 then 0
      else if mn = 1 then 31
      else if mn = 2 then 59 + l
      else if mn = 3 then 90 + l
      else if mn = 4 then 120 + l
      else if mn = 5 then 151 + l
      else if mn = 6 then 181 + l
      else if mn = 7 then 212 + l
      else if mn = 8 then 243 + l
      else if mn = 9 then 273 + l
      else if mn = 10 then 304 + l
      else 334 + l)"

text \<open>
  \<open>MakeDay(year, month, date)\<close>: the day number of the first of the month, plus
  \<open>date - 1\<close>; a date past the end of the month runs on into the next one.
\<close>

definition MakeDay :: "int \<Rightarrow> int \<Rightarrow> int \<Rightarrow> int" where
  "MakeDay year month date =
     (let ym = year + month div 12; mn = month mod 12 in
      DayFromYear ym + monthOffset (if DaysInYear ym = 366 then 1 else 0) mn + date - 1)"

definition MakeDate :: "int \<Rightarrow> int \<Rightarrow> int" where
  "MakeDate day time = day * msPerDay + time"

text \<open>\<open>TimeClip\<close>: a time value more than 8.64e15 ms from the epoch is \<open>NaN\<close>.\<close>

definition TimeClip :: "int \<Rightarrow> int option" where
  "TimeClip t = (if \<bar>t\<bar> > 8640000000000000 then None else Some t)"

definition LocalTime :: "int \<Rightarrow> int \<Rightarrow> int" where
  "LocalTime tza t = t + tza"


definition getFullYear :: "int \<Rightarrow> int option \<Rightarrow> int option" where
  "getFullYear tza d = map_option (\<lambda>t. YearFromTime (LocalTime tza t)) d"

definition getMonth :: "int \<Rightarrow> int option \<Rightarrow> int option" where
  "getMonth tza d = map_option (\<lambda>t. MonthFromTime (LocalTime tza t)) d"

definition getDate :: "int \<Rightarrow> int option \<Rightarrow> int option" where
  "getDate tza d = map_option (\<lambda>t. DateFromTime (LocalTime tza t)) d"

text \<open>The strict pattern \<open>/^\d{4}-\d{2}-\d{2}$/\<close>.\<close>

definition dateRegex :: "jsstring \<Rightarrow> bool" where
  "dateRegex s =
     (length s = 10 \<and> list_all isDigit (take 4 s) \<and> s ! 4 = hyphen \<and>
      list_all isDigit (take 2 (drop 5 s)) \<and> s ! 7 = hyphen \<and>
      list_all isDigit (drop 8 s))"

text \<open>
  \<open>new Date(s)\<close> for a string of the shape \<open>YYYY-MM-DD\<close>, the only strings the
  validators construct a date from. The date-only form is read as midnight UTC. A month
  outside 01..12 or a day outside 01..31 gives an invalid date; a day within 01..31 that
  the month does not have runs on into the next month.
\<close>

definition newDate :: "jsstring \<Rightarrow> int option" where
  "newDate s =
     (let year = Number (take 4 s); month = Number (take 2 (drop 5 s));
          day = Number (drop 8 s) in
      if 1 \<le> month \<and> month \<le> 12 \<and> 1 \<le> day \<and> day \<le> 31
      then TimeClip (MakeDate (MakeDay year (month - 1) day) 0)
      else None)"

section \<open>The date validator\<close>

text \<open>\<open>MoodEntry.isValidDate\<close>; \<open>isValidDateString\<close> of the validation middleware has the same body.\<close>

definition isValidDate :: "int \<Rightarrow> jsstring \<Rightarrow> bool" where
  "isValidDate tza dateString =
     (if \<not> dateRegex dateString then False
      else
        (let date = newDate dateString in
         case map Number (split hyphen dateString) of
           year # month # day # rest \<Rightarrow>
             getFullYear tza date = Some year \<and>
             map_option (\<lambda>m. m + 1) (getMonth tza date) = Some month \<and>
             getDate tza date = Some day
         | _ \<Rightarrow> False))"

definition isValidDateString :: "int \<Rightarrow> jsstring \<Rightarrow> bool" where
  "isValidDateString tza dateString =
     (if \<not> dateRegex dateString then False
      else
        (let date = newDate dateString in
         case map Number (split hyphen dateString) of
           year # month # day # rest \<Rightarrow>
             getFullYear tza date = Some year \<and>
             map_option (\<lambda>m. m + 1) (getMonth tza date) = Some month \<and>
             getDate tza date = Some day
         | _ \<Rightarrow> False))"


text \<open>What the validator is meant to decide: the pattern, and a day that the month has.\<close>

definition DaysInMonth :: "int \<Rightarrow> int \<Rightarrow> int" where
  "DaysInMonth y m =
     (if m = 2 then (if DaysInYear y = 366 then 29 else 28)
      else if m = 4 \<or> m = 6 \<or> m = 9 \<or> m = 11 then 30 else 31)"

definition realDate :: "int \<Rightarrow> int \<Rightarrow> int \<Rightarrow> bool" where
  "realDate y m d = (1 \<le> m \<and> m \<le> 12 \<and> 1 \<le> d \<and> d \<le> DaysInMonth y m)"

definition dateYear :: "jsstring \<Rightarrow> int" where
  "dateYear s = Number (take 4 s)"

definition dateMonth :: "jsstring \<Rightarrow> int" where
  "dateMonth s = Number (take 2 (drop 5 s))"

definition dateDay :: "jsstring \<Rightarrow> int" where
  "dateDay s = Number (drop 8 s)"

definition calendarDate :: "jsstring \<Rightarrow> bool" where
  "calendarDate s = (dateRegex s \<and> realDate (dateYear s) (dateMonth s) (dateDay s))"

section \<open>The MoodEntry model\<close>

text \<open>
  A request body, a \<open>MoodEntry\<close> object and a row of \<open>mood_entries\<close> carry the same six
  fields. A field that is absent from a request body is \<open>JUndefined\<close>.
\<close>

record MoodEntry =
  entry_id :: jsval
  date :: jsval
  emoji :: jsval
  entry_note :: jsval
  created_at :: jsval
  updated_at :: jsval

text \<open>
  Thrown errors. \<open>ValidationError\<close> is the class of the model file; every other error is a
  plain \<open>Error\<close> with a message, to which the thrower may add a \<open>code\<close> and a
  \<open>suggestion\<close>. The errors of the database engine have a code and a message too.
\<close>

datatype error =
    ValidationError jsstring
  | Error "jsstring option" jsstring "jsstring option"

definition allowedEmojis :: "jsstring list" where
  "allowedEmojis =
     [[0xD83D, 0xDE22], [0xD83D, 0xDE10], [0xD83D, 0xDE0A], [0xD83D, 0xDE04], [0xD83D, 0xDE0D]]"

definition msg_date_required :: jsstring where
  "msg_date_required = ustr ''Date is required''"

definition msg_date_format :: jsstring where
  "msg_date_format = ustr ''date must be in YYYY-MM-DD format''"

definition msg_emoji_required :: jsstring where
  "msg_emoji_required = ustr ''Emoji is required''"

definition msg_emoji_set :: jsstring where
  "msg_emoji_set = ustr ''emoji must be one of: '' @ join (ustr '', '') allowedEmojis"

definition msg_note_length :: jsstring where
  "msg_note_length = ustr ''note must be 500 characters or less''"

text \<open>
  \<open>this.isValidDate(this.date)\<close> on any truthy value: the pattern test turns a number or
  a boolean into its text, which never has the shape \<open>dddd-dd-dd\<close>.
\<close>

fun isValidDate_val :: "int \<Rightarrow> jsval \<Rightarrow> bool" where
  "isValidDate_val tza (JStr s) = isValidDate tza s"
| "isValidDate_val tza v = False"

text \<open>The array \<open>errors\<close> that \<open>validate\<close> collects.\<close>

definition validate_errors :: "int \<Rightarrow> MoodEntry \<Rightarrow> jsstring list" where
  "validate_errors tza this =
     (if \<not> truthy (date this) then [msg_date_required]
      else if \<not> isValidDate_val tza (date this) then [msg_date_format]
      else []) @
     (if \<not> truthy (emoji this) then [msg_emoji_required]
      else if emoji this \<notin> set (map JStr allowedEmojis) then [msg_emoji_set]
      else []) @
     (case entry_note this of
        JStr n \<Rightarrow> if length n > 500 then [msg_note_length] else []
      | _ \<Rightarrow> [])"

definition validate :: "int \<Rightarrow> MoodEntry \<Rightarrow> error option" where
  "validate tza this =
     (let errors = validate_errors tza this in
      if length errors > 0 then Some (ValidationError (join (ustr ''; '') errors)) else None)"

text \<open>A constructor parameter with the default \<open>null\<close>.\<close>

definition default_null :: "jsval \<Rightarrow> jsval" where
  "default_null v = (if v = JUndefined then JNull else v)"

text \<open>
  The constructor: the assignments, then \<open>this.validate()\<close>. \<open>now\<close> is what
  \<open>new Date().toISOString()\<close> returns when the constructor runs.
\<close>

definition MoodEntry_fields :: "jsstring \<Rightarrow> MoodEntry \<Rightarrow> MoodEntry" where
  "MoodEntry_fields now a =
     (let note = default_null (entry_note a) in
      \<lparr> entry_id = default_null (entry_id a),
        date = date a,
        emoji = emoji a,
        entry_note = (if note = JStr [] \<or> note = JUndefined then JNull else note),
        created_at = js_or (default_null (created_at a)) (JStr now),
        updated_at = js_or (default_null (updated_at a)) (JStr now) \<rparr>)"

definition MoodEntry_new :: "int \<Rightarrow> jsstring \<Rightarrow> MoodEntry \<Rightarrow> error + MoodEntry" where
  "MoodEntry_new tza now a =
     (let this = MoodEntry_fields now a in
      case validate tza this of Some e \<Rightarrow> Inl e | None \<Rightarrow> Inr this)"

definition fromDbRow :: "int \<Rightarrow> jsstring \<Rightarrow> MoodEntry \<Rightarrow> error + MoodEntry" where
  "fromDbRow tza now row =
     MoodEntry_new tza now
       \<lparr> entry_id = entry_id row, date = date row, emoji = emoji row,
         entry_note = entry_note row, created_at = created_at row,
         updated_at = updated_at row \<rparr>"

record validation =
  isValid :: bool
  errors :: "jsstring list"

text \<open>\<open>MoodEntry.validateInput\<close>, the check of the validation middleware.\<close>

definition validateInput :: "int \<Rightarrow> jsstring \<Rightarrow> MoodEntry \<Rightarrow> validation" where
  "validateInput tza now data =
     (let errs =
        (if \<not> truthy (date data) then [msg_date_required] else []) @
        (if \<not> truthy (emoji data) then [msg_emoji_required] else []) @
        (if truthy (date data) \<and> \<not> isString (date data)
         then [ustr ''date must be a string''] else []) @
        (if truthy (emoji data) \<and> \<not> isString (emoji data)
         then [ustr ''Emoji must be a string''] else []) @
        (if entry_note data \<noteq> JUndefined \<and> entry_note data \<noteq> JNull \<and>
            \<not> isString (entry_note data)
         then [ustr ''note must be a string''] else [])
      in
      if length errs > 0 then \<lparr> isValid = False, errors = errs \<rparr>
      else
        (case MoodEntry_new tza now
                \<lparr> entry_id = JUndefined, date = date data, emoji = emoji data,
                  entry_note = entry_note data, created_at = JUndefined,
                  updated_at = JUndefined \<rparr> of
           Inr e \<Rightarrow> \<lparr> isValid = True, errors = [] \<rparr>
         | Inl (ValidationError m) \<Rightarrow> \<lparr> isValid = False, errors = [m] \<rparr>
         | Inl (Error c m sg) \<Rightarrow> \<lparr> isValid = False, errors = [m] \<rparr>))"

section \<open>The table \<open>mood_entries\<close>\<close>

text \<open>
  The table is the list of its rows in the order of their row ids, with the highest id
  that \<open>AUTOINCREMENT\<close> has handed out. A row keeps the values that were bound when it was
  inserted; the conversions that the engine's column types apply to a value that is not
  text are outside the program.
\<close>

record store =
  rows :: "MoodEntry list"
  seq :: nat

record run_result =
  lastID :: nat
  changes :: nat

text \<open>\<open>date = ?\<close>: a null never equals anything.\<close>

definition sql_eq :: "jsval \<Rightarrow> jsval \<Rightarrow> bool" where
  "sql_eq a b = (a = b \<and> a \<noteq> JNull \<and> a \<noteq> JUndefined)"

text \<open>
  \<open>length(note)\<close> counts characters: a surrogate pair of the JavaScript string is one
  character of the stored text.
\<close>

fun sql_length :: "jsstring \<Rightarrow> nat" where
  "sql_length [] = 0"
| "sql_length [c] = 1"
| "sql_length (c # c' # cs) =
     (if 0xD800 \<le> c \<and> c \<le> 0xDBFF \<and> 0xDC00 \<le> c' \<and> c' \<le> 0xDFFF
      then Suc (sql_length cs) else Suc (sql_length (c' # cs)))"

definition SQLITE_CONSTRAINT :: jsstring where
  "SQLITE_CONSTRAINT = ustr ''SQLITE_CONSTRAINT''"

definition constraint_failed :: "string \<Rightarrow> error" where
  "constraint_failed what =
     Error (Some SQLITE_CONSTRAINT) (ustr ''SQLITE_CONSTRAINT: '' @ ustr what) None"

text \<open>
  \<open>INSERT INTO mood_entries (date, emoji, note, created_at, updated_at)\<close> under the
  constraints of the schema: \<open>date\<close> and \<open>emoji\<close> not null, \<open>emoji\<close> one of the five
  symbols, \<open>note\<close> of at most 500 characters, \<open>date\<close> unique.
\<close>

definition db_insert :: "MoodEntry \<Rightarrow> store \<Rightarrow> error + run_result \<times> store" where
  "db_insert e s =
     (if date e = JNull \<or> date e = JUndefined
      then Inl (constraint_failed ''NOT NULL constraint failed: mood_entries.date'')
      else if emoji e = JNull \<or> emoji e = JUndefined
      then Inl (constraint_failed ''NOT NULL constraint failed: mood_entries.emoji'')
      else if emoji e \<notin> set (map JStr allowedEmojis)
      then Inl (constraint_failed ''CHECK constraint failed: mood_entries'')
      else if (case entry_note e of JStr n \<Rightarrow> sql_length n > 500 | _ \<Rightarrow> False)
      then Inl (constraint_failed ''CHECK constraint failed: mood_entries'')
      else if list_ex (\<lambda>r. sql_eq (date r) (date e)) (rows s)
      then Inl (constraint_failed ''UNIQUE constraint failed: mood_entries.date'')
      else
        (let i = Suc (seq s) in
         Inr (\<lparr> lastID = i, changes = 1 \<rparr>,
              \<lparr> rows = rows s @ [e \<lparr> entry_id := JNum (int i) \<rparr>], seq = i \<rparr>)))"

text \<open>\<open>SELECT * FROM mood_entries WHERE date = ?\<close>, first row.\<close>

definition db_get_by_date :: "jsval \<Rightarrow> store \<Rightarrow> MoodEntry option" where
  "db_get_by_date d s = find (\<lambda>r. sql_eq (date r) d) (rows s)"

text \<open>\<open>DELETE FROM mood_entries WHERE date = ?\<close>\<close>

definition db_delete_by_date :: "jsval \<Rightarrow> store \<Rightarrow> run_result \<times> store" where
  "db_delete_by_date d s =
     (\<lparr> lastID = seq s, changes = length (filter (\<lambda>r. sql_eq (date r) d) (rows s)) \<rparr>,
      s \<lparr> rows := filter (\<lambda>r. \<not> sql_eq (date r) d) (rows s) \<rparr>)"

section \<open>The repository \<open>MoodDatabase\<close>\<close>

text \<open>Decimal digits of a number, and the text a template literal makes of a value.\<close>

fun digits :: "nat \<Rightarrow> jsstring" where
  "digits n = (if n < 10 then [of_nat (48 + n)] else digits (n div 10) @ [of_nat (48 + n mod 10)])"

declare digits.simps [simp del]

fun toString :: "jsval \<Rightarrow> jsstring" where
  "toString JUndefined = ustr ''undefined''"
| "toString JNull = ustr ''null''"
| "toString (JBool b) = (if b then ustr ''true'' else ustr ''false'')"
| "toString (JNum n) = (if n < 0 then ustr ''-'' @ digits (nat (- n)) else digits (nat n))"
| "toString (JStr s) = s"

definition duplicate_error :: "jsval \<Rightarrow> error" where
  "duplicate_error d =
     Error (Some (ustr ''DUPLICATE_DATE''))
       (ustr ''Mood entry for '' @ toString d @ ustr '' already exists'')
       (Some (ustr ''Consider updating, editing, or deleting the existing entry first''))"

definition not_found_error :: "jsval \<Rightarrow> error" where
  "not_found_error d =
     Error (Some (ustr ''NOT_FOUND''))
       (ustr ''Mood entry for '' @ toString d @ ustr '' not found'') None"

definition getMoodEntryByDate ::
  "int \<Rightarrow> jsstring \<Rightarrow> jsval \<Rightarrow> store \<Rightarrow> error + MoodEntry option" where
  "getMoodEntryByDate tza now d s =
     (case db_get_by_date d s of
        None \<Rightarrow> Inr None
      | Some row \<Rightarrow>
          (case fromDbRow tza now row of Inl e \<Rightarrow> Inl e | Inr e \<Rightarrow> Inr (Some e)))"

text \<open>
  The \<open>try\<close> block of \<open>createMoodEntry\<close>: the insert, and the translation of the engine's
  uniqueness failure.
\<close>

definition createMoodEntry_insert :: "MoodEntry \<Rightarrow> store \<Rightarrow> (error + MoodEntry) \<times> store" where
  "createMoodEntry_insert moodEntry s =
     (case db_insert moodEntry s of
        Inr (result, s') \<Rightarrow> (Inr (moodEntry \<lparr> entry_id := JNum (int (lastID result)) \<rparr>), s')
      | Inl (Error code message sg) \<Rightarrow>
          if code = Some SQLITE_CONSTRAINT \<and> includes_str message (ustr ''mood_entries.date'')
          then (Inl (duplicate_error (date moodEntry)), s)
          else (Inl (Error code message sg), s)
      | Inl sqliteError \<Rightarrow> (Inl sqliteError, s))"

text \<open>
  \<open>createMoodEntry\<close> awaits twice: the lookup, then the insert. \<open>s_check\<close> is the table
  when the lookup reads it, \<open>s_insert\<close> the table when the insert reaches it; another
  request may have run in between. A call that nothing interleaves with has both equal.
\<close>

definition createMoodEntry_steps ::
  "int \<Rightarrow> jsstring \<Rightarrow> MoodEntry \<Rightarrow> store \<Rightarrow> store \<Rightarrow> (error + MoodEntry) \<times> store" where
  "createMoodEntry_steps tza now moodData s_check s_insert =
     (case MoodEntry_new tza now moodData of
        Inl e \<Rightarrow> (Inl e, s_insert)
      | Inr moodEntry \<Rightarrow>
          (case getMoodEntryByDate tza now (date moodEntry) s_check of
             Inl e \<Rightarrow> (Inl e, s_insert)
           | Inr (Some existing) \<Rightarrow> (Inl (duplicate_error (date moodEntry)), s_insert)
           | Inr None \<Rightarrow> createMoodEntry_insert moodEntry s_insert))"

definition createMoodEntry ::
  "int \<Rightarrow> jsstring \<Rightarrow> MoodEntry \<Rightarrow> store \<Rightarrow> (error + MoodEntry) \<times> store" where
  "createMoodEntry tza now moodData s = createMoodEntry_steps tza now moodData s s"

definition deleteMoodEntryByDate ::
  "int \<Rightarrow> jsstring \<Rightarrow> jsval \<Rightarrow> store \<Rightarrow> (error + MoodEntry) \<times> store" where
  "deleteMoodEntryByDate tza now d s =
     (case getMoodEntryByDate tza now d s of
        Inl e \<Rightarrow> (Inl e, s)
      | Inr None \<Rightarrow> (Inl (not_found_error d), s)
      | Inr (Some existing) \<Rightarrow>
          (let (result, s') = db_delete_by_date d s in
           if changes result = 0 then (Inl (not_found_error d), s')
           else (Inr existing, s')))"







text \<open>
  The sort key of \<open>ORDER BY date\<close>: text in the order of its code units, after everything
  that is not text.
\<close>

fun date_key :: "jsval \<Rightarrow> jsstring option" where
  "date_key (JStr d) = Some d"
| "date_key v = None"




subsection \<open>Statistics\<close>









section \<open>The rules of the specification\<close>

text \<open>
  The rejection rules of the entity validator as the specification lists them: the date
  is missing or fails the date check, the emoji is missing or outside the fixed set, the
  note is a string of more than 500 characters.
\<close>

definition invalid_candidate :: "int \<Rightarrow> MoodEntry \<Rightarrow> bool" where
  "invalid_candidate tza c =
     (\<not> truthy (date c) \<or> \<not> isValidDate_val tza (date c) \<or>
      \<not> truthy (emoji c) \<or> emoji c \<notin> set (map JStr allowedEmojis) \<or>
      (case entry_note c of JStr n \<Rightarrow> length n > 500 | _ \<Rightarrow> False))"

text \<open>The note as the constructor keeps it: empty and absent become null.\<close>

definition normal_note :: "jsval \<Rightarrow> jsval" where
  "normal_note v = (if v = JStr [] \<or> v = JUndefined then JNull else v)"

section \<open>The tables the repository can produce\<close>

text \<open>
  The tables that calls of create and delete make of the empty table. The lookup of a
  create may have read any table (\<open>s_check\<close>): other requests may have run between its
  lookup and its insert.
\<close>

inductive reachable :: "int \<Rightarrow> store \<Rightarrow> bool" for tza :: int where
  init: "reachable tza \<lparr> rows = [], seq = 0 \<rparr>"
| create: "reachable tza s \<Longrightarrow> now \<noteq> [] \<Longrightarrow>
     reachable tza (snd (createMoodEntry_steps tza now moodData s_check s))"
| delete: "reachable tza s \<Longrightarrow>
     reachable tza (snd (deleteMoodEntryByDate tza now d s))"

text \<open>
  What holds of every such table: no two rows have the same date, every row passes the
  validation that reading it runs, and every row is as the constructor leaves an entry:
  it has an id, its note is not the empty string, its timestamps are set.
\<close>

definition row_normal :: "MoodEntry \<Rightarrow> bool" where
  "row_normal r =
     (entry_id r \<noteq> JUndefined \<and> entry_note r = normal_note (entry_note r) \<and>
      truthy (created_at r) \<and> truthy (updated_at r))"

definition store_inv :: "int \<Rightarrow> store \<Rightarrow> bool" where
  "store_inv tza s =
     (distinct (map date (rows s)) \<and>
      list_all (\<lambda>r. validate_errors tza r = [] \<and> row_normal r) (rows s))"




section \<open>Properties of the calendar arithmetic\<close>

lemma yearUp_bounds:
  "DayFromYear y \<le> d \<Longrightarrow> DayFromYear (yearUp y d) \<le> d \<and> d < DayFromYear (yearUp y d + 1)"
proof (induction y d rule: yearUp.induct)
  case (1 y d)
  show ?case
  proof (cases "DayFromYear (y + 1) \<le> d")
    case True
    with 1 show ?thesis by (simp add: yearUp.simps [of y d])
  next
    case False
    with 1 show ?thesis by (simp add: yearUp.simps [of y d])
  qed
qed

lemma YearFromDay_bounds:
  "DayFromYear (YearFromDay d) \<le> d \<and> d < DayFromYear (YearFromDay d + 1)"
proof (cases "0 \<le> d")
  case True
  then show ?thesis using est_nonneg [of d] yearUp_bounds by (simp add: YearFromDay_def)
next
  case False
  then show ?thesis using est_neg [of d] yearUp_bounds by (simp add: YearFromDay_def)
qed

lemma DayFromYear_mono: "y \<le> y' \<Longrightarrow> DayFromYear y \<le> DayFromYear y'"
proof (induction y' rule: int_ge_induct)
  case base
  show ?case by simp
next
  case (step i)
  then show ?case using DayFromYear_step [of i] DaysInYear_bounds [of i] by simp
qed

lemma YearFromDay_unique:
  assumes "DayFromYear y \<le> d" and "d < DayFromYear (y + 1)"
  shows "YearFromDay d = y"
proof -
  let ?y = "YearFromDay d"
  have b: "DayFromYear ?y \<le> d" "d < DayFromYear (?y + 1)"
    using YearFromDay_bounds [of d] by simp_all
  have "\<not> y + 1 \<le> ?y"
    using DayFromYear_mono [of "y + 1" ?y] assms(2) b(1) by auto
  moreover have "\<not> ?y + 1 \<le> y"
    using DayFromYear_mono [of "?y + 1" y] assms(1) b(2) by auto
  ultimately show ?thesis by simp
qed

lemma DayWithinYear_bounds:
  "0 \<le> DayWithinYear t \<and> DayWithinYear t < 365 + InLeapYear t"
proof -
  have "DaysInYear (YearFromTime t) = 365 + InLeapYear t"
    by (simp add: InLeapYear_def DaysInYear_def)
  then show ?thesis
    using YearFromDay_bounds [of "Day t"] DayFromYear_step [of "YearFromTime t"]
    by (simp add: DayWithinYear_def YearFromTime_def)
qed

lemma InLeapYear_cases: "InLeapYear t = 0 \<or> InLeapYear t = 1"
  by (simp add: InLeapYear_def)

lemma MonthFromTime_range: "0 \<le> MonthFromTime t \<and> MonthFromTime t \<le> 11"
  by (simp add: MonthFromTime_def Let_def)

lemma compose_decompose:
  "MakeDay (YearFromTime t) (MonthFromTime t) (DateFromTime t) = Day t"
proof -
  define d where "d = DayWithinYear t"
  define l where "l = InLeapYear t"
  have r: "MonthFromTime t div 12 = 0" "MonthFromTime t mod 12 = MonthFromTime t"
    using MonthFromTime_range [of t] by simp_all
  have l: "(if DaysInYear (YearFromTime t) = 366 then 1 else 0) = l"
    by (simp add: l_def InLeapYear_def)
  have "monthOffset l (MonthFromTime t) + DateFromTime t - 1 = d"
    unfolding monthOffset_def DateFromTime_def MonthFromTime_def Let_def
      d_def [symmetric] l_def [symmetric]
    by simp
  moreover have "MakeDay (YearFromTime t) (MonthFromTime t) (DateFromTime t) =
      DayFromYear (YearFromTime t) + monthOffset l (MonthFromTime t) + DateFromTime t - 1"
    by (simp add: MakeDay_def r l_def InLeapYear_def)
  ultimately show ?thesis
    by (simp add: d_def DayWithinYear_def)
qed

lemma decompose_real:
  "realDate (YearFromTime t) (MonthFromTime t + 1) (DateFromTime t)"
proof -
  define d where "d = DayWithinYear t"
  define l where "l = InLeapYear t"
  have b: "0 \<le> d" "d < 365 + l" "l = 0 \<or> l = 1"
    using DayWithinYear_bounds [of t] InLeapYear_cases [of t] by (simp_all add: d_def l_def)
  have l: "(if DaysInYear (YearFromTime t) = 366 then 29 else 28) = 28 + l"
    by (simp add: l_def InLeapYear_def)
  show ?thesis
    unfolding realDate_def DaysInMonth_def l
    unfolding DateFromTime_def MonthFromTime_def Let_def d_def [symmetric] l_def [symmetric]
    using b by auto
qed


lemma MakeDay_in_year:
  assumes "0 \<le> m" "m \<le> 11"
  shows "MakeDay y m d =
    DayFromYear y + monthOffset (if DaysInYear y = 366 then 1 else 0) m + d - 1"
proof -
  have "m div 12 = 0" "m mod 12 = m" using assms by simp_all
  then show ?thesis by (simp add: MakeDay_def)
qed

lemma decompose_compose:
  assumes "realDate y m d" and "Day t = MakeDay y (m - 1) d"
  shows "YearFromTime t = y \<and> MonthFromTime t = m - 1 \<and> DateFromTime t = d"
proof -
  define l :: int where "l = (if DaysInYear y = 366 then 1 else 0)"
  define off where "off = monthOffset l (m - 1) + d - 1"
  have l01: "l = 0 \<or> l = 1" by (simp add: l_def)
  have diy: "DaysInYear y = 365 + l" by (simp add: l_def DaysInYear_def)
  have dim: "DaysInMonth y k =
      (if k = 2 then 28 + l else if k = 4 \<or> k = 6 \<or> k = 9 \<or> k = 11 then 30 else 31)" for k
    by (simp add: DaysInMonth_def l_def)
  have m: "1 \<le> m" "m \<le> 12" "1 \<le> d" "d \<le> DaysInMonth y m"
    using assms(1) by (simp_all add: realDate_def)
  have day: "Day t = DayFromYear y + off"
    using assms(2) m MakeDay_in_year [of "m - 1" y d] by (simp add: off_def l_def)
  have mcases: "m = 1 \<or> m = 2 \<or> m = 3 \<or> m = 4 \<or> m = 5 \<or> m = 6 \<or> m = 7 \<or> m = 8 \<or>
      m = 9 \<or> m = 10 \<or> m = 11 \<or> m = 12"
    using m(1,2) by arith
  have lb: "0 \<le> l" "l \<le> 1" by (simp_all add: l_def)
  have off: "0 \<le> off \<and> off < 365 + l"
    using mcases
    by (elim disjE) (use m(3,4) lb in \<open>simp_all add: off_def monthOffset_def dim\<close>)
  have yr: "YearFromTime t = y"
    unfolding YearFromTime_def
    using YearFromDay_unique [of y "Day t"] day off DayFromYear_step [of y] diy by simp
  have leap: "InLeapYear t = l" by (simp add: InLeapYear_def yr l_def)
  have dwy: "DayWithinYear t = off" by (simp add: DayWithinYear_def yr day)
  have mo: "MonthFromTime t = m - 1"
    using mcases
    by (elim disjE)
      (use m(3,4) lb in \<open>simp_all add: MonthFromTime_def dwy leap off_def monthOffset_def dim\<close>)
  have "DateFromTime t = d"
    using mcases
    by (elim disjE)
      (simp_all add: DateFromTime_def dwy leap mo off_def monthOffset_def)
  with yr mo show ?thesis by simp
qed

lemma dateRegex_shape:
  assumes "dateRegex s"
  shows "s = [s ! 0, s ! 1, s ! 2, s ! 3, hyphen, s ! 5, s ! 6, hyphen, s ! 8, s ! 9]"
    and "isDigit (s ! 0)" "isDigit (s ! 1)" "isDigit (s ! 2)" "isDigit (s ! 3)"
    and "isDigit (s ! 5)" "isDigit (s ! 6)" "isDigit (s ! 8)" "isDigit (s ! 9)"
proof -
  from assms have len: "length s = 10" by (simp add: dateRegex_def)
  then obtain a b c d x e f y g h where s: "s = [a, b, c, d, x, e, f, y, g, h]"
    by (auto simp: length_Suc_conv numeral_eq_Suc)
  from assms show "s = [s ! 0, s ! 1, s ! 2, s ! 3, hyphen, s ! 5, s ! 6, hyphen, s ! 8, s ! 9]"
    by (simp add: s dateRegex_def)
  from assms show "isDigit (s ! 0)" "isDigit (s ! 1)" "isDigit (s ! 2)" "isDigit (s ! 3)"
    "isDigit (s ! 5)" "isDigit (s ! 6)" "isDigit (s ! 8)" "isDigit (s ! 9)"
    by (simp_all add: s dateRegex_def)
qed

lemma isDigit_not_hyphen: "isDigit c \<Longrightarrow> c \<noteq> hyphen"
  by (auto simp: isDigit_def hyphen_def)

lemma isDigit_value: "isDigit c \<Longrightarrow> 0 \<le> uint c - 48 \<and> uint c - 48 \<le> 9"
  by (simp add: isDigit_def word_le_def)

lemma split_no_sep: "sep \<notin> set p \<Longrightarrow> split sep p = [p]"
  by (induction p) auto

lemma split_at_sep: "sep \<notin> set p \<Longrightarrow> split sep (p @ sep # r) = p # split sep r"
  by (induction p) auto

lemma split_date:
  assumes "dateRegex s"
  shows "split hyphen s = [take 4 s, take 2 (drop 5 s), drop 8 s]"
proof -
  define a b c d e f g h where
    abbr: "a = s ! 0" "b = s ! 1" "c = s ! 2" "d = s ! 3" "e = s ! 5" "f = s ! 6" "g = s ! 8" "h = s ! 9"
  have s: "s = [a, b, c, d, hyphen, e, f, hyphen, g, h]"
    unfolding abbr by (rule dateRegex_shape(1) [OF assms])
  have dg: "isDigit a" "isDigit b" "isDigit c" "isDigit d" "isDigit e" "isDigit f" "isDigit g" "isDigit h"
    unfolding abbr by (rule dateRegex_shape(2-) [OF assms])+
  have n: "hyphen \<notin> set [a, b, c, d]" "hyphen \<notin> set [e, f]" "hyphen \<notin> set [g, h]"
    using dg [THEN isDigit_not_hyphen] by auto
  have 1: "split hyphen [g, h] = [[g, h]]"
    by (rule split_no_sep [OF n(3)])
  have 2: "split hyphen ([e, f] @ hyphen # [g, h]) = [e, f] # split hyphen [g, h]"
    by (rule split_at_sep [OF n(2)])
  have 3: "split hyphen ([a, b, c, d] @ hyphen # [e, f, hyphen, g, h]) =
      [a, b, c, d] # split hyphen [e, f, hyphen, g, h]"
    by (rule split_at_sep [OF n(1)])
  have "split hyphen s = [[a, b, c, d], [e, f], [g, h]]"
    unfolding s using 1 2 3 by (simp only: append_Cons append_Nil)
  moreover have "take 4 s = [a, b, c, d]" "take 2 (drop 5 s) = [e, f]" "drop 8 s = [g, h]"
    by (simp_all add: s)
  ultimately show ?thesis by simp
qed

lemma Number_year_range:
  assumes "dateRegex s"
  shows "0 \<le> Number (take 4 s) \<and> Number (take 4 s) \<le> 9999"
proof -
  define a b c d e f g h where
    abbr: "a = s ! 0" "b = s ! 1" "c = s ! 2" "d = s ! 3" "e = s ! 5" "f = s ! 6" "g = s ! 8" "h = s ! 9"
  have s: "s = [a, b, c, d, hyphen, e, f, hyphen, g, h]"
    unfolding abbr by (rule dateRegex_shape(1) [OF assms])
  have dg: "isDigit a" "isDigit b" "isDigit c" "isDigit d" "isDigit e" "isDigit f" "isDigit g" "isDigit h"
    unfolding abbr by (rule dateRegex_shape(2-) [OF assms])+
  show ?thesis
    using dg(1-4) [THEN isDigit_value] by (simp add: s Number_def)
qed

lemma DayFromYear_0: "DayFromYear 0 = - 719528"
  by (simp add: DayFromYear_def)

lemma DayFromYear_9999: "DayFromYear 9999 = 2932532"
  by (simp add: DayFromYear_def)

lemma monthOffset_range: "0 \<le> l \<Longrightarrow> l \<le> 1 \<Longrightarrow> 0 \<le> monthOffset l m \<and> monthOffset l m \<le> 335"
  by (simp add: monthOffset_def)

lemma MakeDay_range:
  assumes "0 \<le> y" "y \<le> 9999" "1 \<le> m" "m \<le> 12" "1 \<le> d" "d \<le> 31"
  shows "- 719528 \<le> MakeDay y (m - 1) d \<and> MakeDay y (m - 1) d \<le> 2932900"
proof -
  have "DayFromYear 0 \<le> DayFromYear y" "DayFromYear y \<le> DayFromYear 9999"
    using assms(1,2) by (simp_all add: DayFromYear_mono)
  moreover have "0 \<le> monthOffset (if DaysInYear y = 366 then 1 else 0) (m - 1) \<and>
      monthOffset (if DaysInYear y = 366 then 1 else 0) (m - 1) \<le> 335"
    by (rule monthOffset_range) simp_all
  ultimately show ?thesis
    using assms MakeDay_in_year [of "m - 1" y d]
    by (simp add: DayFromYear_0 DayFromYear_9999)
qed

lemma newDate_Some:
  assumes "dateRegex s"
    and "1 \<le> Number (take 2 (drop 5 s))" "Number (take 2 (drop 5 s)) \<le> 12"
    and "1 \<le> Number (drop 8 s)" "Number (drop 8 s) \<le> 31"
  shows "newDate s =
    Some (MakeDay (Number (take 4 s)) (Number (take 2 (drop 5 s)) - 1) (Number (drop 8 s)) * msPerDay)"
proof -
  let ?n = "MakeDay (Number (take 4 s)) (Number (take 2 (drop 5 s)) - 1) (Number (drop 8 s))"
  have "- 719528 \<le> ?n \<and> ?n \<le> 2932900"
    using Number_year_range [OF assms(1)] assms(2-5) by (intro MakeDay_range) simp_all
  then have "\<bar>?n * msPerDay\<bar> \<le> 8640000000000000"
    by (simp add: msPerDay_def abs_le_iff)
  then show ?thesis
    using assms(2-5) by (simp add: newDate_def TimeClip_def MakeDate_def)
qed

lemma newDate_None:
  assumes "\<not> (1 \<le> Number (take 2 (drop 5 s)) \<and> Number (take 2 (drop 5 s)) \<le> 12 \<and>
     1 \<le> Number (drop 8 s) \<and> Number (drop 8 s) \<le> 31)"
  shows "newDate s = None"
  using assms by (auto simp: newDate_def)

lemma Day_shift: "Day (n * msPerDay + tza) = n + tza div msPerDay"
  by (simp add: Day_def msPerDay_def)

lemma tza_same_day: "tza div msPerDay = 0 \<longleftrightarrow> 0 \<le> tza \<and> tza < msPerDay"
  by (auto simp: msPerDay_def div_pos_pos_trivial dest: pos_imp_zdiv_nonneg_iff[THEN iffD1, rotated])

lemma DaysInMonth_le: "DaysInMonth y m \<le> 31"
  by (simp add: DaysInMonth_def)

lemma isValidDate_iff:
  "isValidDate tza s \<longleftrightarrow> calendarDate s \<and> 0 \<le> tza \<and> tza < msPerDay"
proof (cases "dateRegex s")
  case False
  then show ?thesis by (simp add: isValidDate_def calendarDate_def)
next
  case True
  let ?y = "dateYear s" and ?m = "dateMonth s" and ?d = "dateDay s"
  let ?n = "MakeDay ?y (?m - 1) ?d"
  have unfold: "isValidDate tza s \<longleftrightarrow>
      getFullYear tza (newDate s) = Some ?y \<and>
      map_option (\<lambda>m. m + 1) (getMonth tza (newDate s)) = Some ?m \<and>
      getDate tza (newDate s) = Some ?d"
    using True by (simp add: isValidDate_def split_date dateYear_def dateMonth_def dateDay_def Let_def)
  show ?thesis
  proof (cases "1 \<le> ?m \<and> ?m \<le> 12 \<and> 1 \<le> ?d \<and> ?d \<le> 31")
    case False
    then have "newDate s = None"
      by (intro newDate_None) (simp add: dateMonth_def dateDay_def)
    moreover have "\<not> realDate ?y ?m ?d"
      using False DaysInMonth_le [of ?y ?m] by (auto simp: realDate_def)
    ultimately show ?thesis
      by (simp add: unfold getFullYear_def calendarDate_def)
  next
    case inrange: True
    then have nd: "newDate s = Some (?n * msPerDay)"
      using newDate_Some [OF True] by (simp add: dateYear_def dateMonth_def dateDay_def)
    let ?t = "LocalTime tza (?n * msPerDay)"
    have day: "Day ?t = ?n + tza div msPerDay"
      by (simp add: LocalTime_def Day_shift)
    have acc: "isValidDate tza s \<longleftrightarrow>
        YearFromTime ?t = ?y \<and> MonthFromTime ?t = ?m - 1 \<and> DateFromTime ?t = ?d"
      by (auto simp: unfold nd getFullYear_def getMonth_def getDate_def)
    show ?thesis
    proof
      assume "isValidDate tza s"
      then have g: "YearFromTime ?t = ?y" "MonthFromTime ?t = ?m - 1" "DateFromTime ?t = ?d"
        using acc by simp_all
      have "?n = Day ?t"
        using compose_decompose [of ?t] by (simp only: g)
      then have "tza div msPerDay = 0" using day by simp
      then have "0 \<le> tza \<and> tza < msPerDay" by (simp add: tza_same_day)
      moreover have "realDate ?y ?m ?d"
        using decompose_real [of ?t] by (simp add: g)
      ultimately show "calendarDate s \<and> 0 \<le> tza \<and> tza < msPerDay"
        using True by (simp add: calendarDate_def)
    next
      assume a: "calendarDate s \<and> 0 \<le> tza \<and> tza < msPerDay"
      then have "tza div msPerDay = 0" by (simp add: tza_same_day)
      then have "Day ?t = ?n" using day by simp
      moreover have "realDate ?y ?m ?d" using a by (simp add: calendarDate_def)
      ultimately show "isValidDate tza s"
        using decompose_compose [of ?y ?m ?d ?t] acc by simp
    qed
  qed
qed

section \<open>Properties of the validators\<close>

lemmas msg_defs = msg_date_required_def msg_date_format_def msg_emoji_required_def
  msg_emoji_set_def msg_note_length_def

lemma msgs_distinct:
  "distinct [msg_date_required, msg_date_format, msg_emoji_required, msg_emoji_set, msg_note_length]"
  by (simp add: msg_defs ustr_def)

lemma type_msgs_distinct:
  "ustr ''date must be a string'' \<noteq> msg_date_format"
  "ustr ''Emoji must be a string'' \<noteq> msg_date_format"
  "ustr ''note must be a string'' \<noteq> msg_date_format"
  "ustr ''date must be a string'' \<noteq> msg_emoji_set"
  "ustr ''Emoji must be a string'' \<noteq> msg_emoji_set"
  "ustr ''note must be a string'' \<noteq> msg_emoji_set"
  by (simp_all add: msg_defs ustr_def)

lemma isValidDateString_eq: "isValidDateString tza s = isValidDate tza s"
  by (simp add: isValidDateString_def isValidDate_def)

lemma calendarDate_2025_09_22: "calendarDate (ustr ''2025-09-22'')"
  by (simp add: calendarDate_def dateRegex_def realDate_def DaysInMonth_def
     dateYear_def dateMonth_def dateDay_def Number_def ustr_def isDigit_def hyphen_def)

lemma not_calendarDate_2025_02_30:
  "dateRegex (ustr ''2025-02-30'') \<and> \<not> calendarDate (ustr ''2025-02-30'')"
  by (simp add: calendarDate_def dateRegex_def realDate_def DaysInMonth_def DaysInYear_def
     dateYear_def dateMonth_def dateDay_def Number_def ustr_def isDigit_def hyphen_def)

lemma validate_errors_date:
  "msg_date_required \<in> set (validate_errors tza this) \<longleftrightarrow> \<not> truthy (date this)"
  "msg_date_format \<in> set (validate_errors tza this) \<longleftrightarrow>
     truthy (date this) \<and> \<not> isValidDate_val tza (date this)"
  using msgs_distinct by (auto simp: validate_errors_def split: jsval.splits)

lemma validate_errors_emoji:
  "msg_emoji_required \<in> set (validate_errors tza this) \<longleftrightarrow> \<not> truthy (emoji this)"
  "msg_emoji_set \<in> set (validate_errors tza this) \<longleftrightarrow>
     truthy (emoji this) \<and> emoji this \<notin> set (map JStr allowedEmojis)"
  using msgs_distinct by (auto simp: validate_errors_def split: jsval.splits)

lemma validate_errors_note:
  "msg_note_length \<in> set (validate_errors tza this) \<longleftrightarrow>
     (\<exists>n. entry_note this = JStr n \<and> length n > 500)"
  using msgs_distinct by (cases "entry_note this") (auto simp: validate_errors_def)

lemma MoodEntry_new_invalid:
  "validate_errors tza (MoodEntry_fields now a) \<noteq> [] \<Longrightarrow>
   MoodEntry_new tza now a =
     Inl (ValidationError (join (ustr ''; '') (validate_errors tza (MoodEntry_fields now a))))"
  by (simp add: MoodEntry_new_def validate_def Let_def)

lemma MoodEntry_new_valid:
  "validate_errors tza (MoodEntry_fields now a) = [] \<Longrightarrow>
   MoodEntry_new tza now a = Inr (MoodEntry_fields now a)"
  by (simp add: MoodEntry_new_def validate_def Let_def)

lemma MoodEntry_fields_date [simp]: "date (MoodEntry_fields now a) = date a"
  by (simp add: MoodEntry_fields_def Let_def)

lemma MoodEntry_fields_emoji [simp]: "emoji (MoodEntry_fields now a) = emoji a"
  by (simp add: MoodEntry_fields_def Let_def)

section \<open>The date validator and the time zone\<close>

text \<open>
  Claim C8: the date validator accepts a string exactly when it matches the pattern
  \<open>YYYY-MM-DD\<close> and denotes a real calendar date. The validator reads the string as
  midnight UTC and compares the year, month and day of the local time. By
  \<open>isValidDate_iff\<close> it decides the calendar date exactly when local time is at or ahead of
  UTC by less than a day. Where local time is behind UTC, midnight UTC falls on the
  previous local day and no string is accepted: with local time five hours behind UTC,
  both copies of the validator reject the real date 2025-09-22.
\<close>

theorem isValidDate_west_of_UTC:
  "calendarDate (ustr ''2025-09-22'') \<and>
   \<not> isValidDate (- 18000000) (ustr ''2025-09-22'') \<and>
   \<not> isValidDateString (- 18000000) (ustr ''2025-09-22'')"
  by (simp add: isValidDateString_eq isValidDate_iff calendarDate_2025_09_22)

section \<open>An empty field is a missing field\<close>

text \<open>
  Claim C10: where the date or the emoji of a candidate is the empty string, both
  \<open>validateInput\<close> and the constructor report the field as missing (\<open>Date is required\<close>,
  \<open>Emoji is required\<close>) and not as a violation of the format or of the fixed set: the
  format and set messages are reported for non-empty values only.
\<close>

theorem empty_field_is_missing:
  "(date data = JStr [] \<longrightarrow>
      \<not> isValid (validateInput tza now data) \<and>
      msg_date_required \<in> set (errors (validateInput tza now data)) \<and>
      msg_date_format \<notin> set (errors (validateInput tza now data)) \<and>
      msg_date_required \<in> set (validate_errors tza (MoodEntry_fields now data)) \<and>
      msg_date_format \<notin> set (validate_errors tza (MoodEntry_fields now data))) \<and>
   (emoji data = JStr [] \<longrightarrow>
      \<not> isValid (validateInput tza now data) \<and>
      msg_emoji_required \<in> set (errors (validateInput tza now data)) \<and>
      msg_emoji_set \<notin> set (errors (validateInput tza now data)) \<and>
      msg_emoji_required \<in> set (validate_errors tza (MoodEntry_fields now data)) \<and>
      msg_emoji_set \<notin> set (validate_errors tza (MoodEntry_fields now data))) \<and>
   ((date data = JStr [] \<or> emoji data = JStr []) \<longrightarrow>
      MoodEntry_new tza now data =
        Inl (ValidationError
              (join (ustr ''; '') (validate_errors tza (MoodEntry_fields now data))))) \<and>
   (msg_date_format \<in> set (validate_errors tza (MoodEntry_fields now data)) \<longrightarrow>
      date data \<noteq> JStr []) \<and>
   (msg_emoji_set \<in> set (validate_errors tza (MoodEntry_fields now data)) \<longrightarrow>
      emoji data \<noteq> JStr [])"
proof (intro conjI impI)
  assume d: "date data = JStr []"
  show "\<not> isValid (validateInput tza now data)"
    using d by (simp add: validateInput_def Let_def)
  show "msg_date_required \<in> set (errors (validateInput tza now data))"
    using d by (simp add: validateInput_def Let_def)
  show "msg_date_format \<notin> set (errors (validateInput tza now data))"
    using d msgs_distinct type_msgs_distinct(1-3)
    by (simp add: validateInput_def Let_def) metis
  show "msg_date_required \<in> set (validate_errors tza (MoodEntry_fields now data))"
    using d by (simp add: validate_errors_date)
  show "msg_date_format \<notin> set (validate_errors tza (MoodEntry_fields now data))"
    using d by (simp add: validate_errors_date)
next
  assume e: "emoji data = JStr []"
  show "\<not> isValid (validateInput tza now data)"
    using e by (simp add: validateInput_def Let_def)
  show "msg_emoji_required \<in> set (errors (validateInput tza now data))"
    using e by (simp add: validateInput_def Let_def)
  show "msg_emoji_set \<notin> set (errors (validateInput tza now data))"
    using e msgs_distinct type_msgs_distinct(4-6)
    by (simp add: validateInput_def Let_def) metis
  show "msg_emoji_required \<in> set (validate_errors tza (MoodEntry_fields now data))"
    using e by (simp add: validate_errors_emoji)
  show "msg_emoji_set \<notin> set (validate_errors tza (MoodEntry_fields now data))"
    using e by (simp add: validate_errors_emoji)
next
  assume "date data = JStr [] \<or> emoji data = JStr []"
  then have "msg_date_required \<in> set (validate_errors tza (MoodEntry_fields now data)) \<or>
      msg_emoji_required \<in> set (validate_errors tza (MoodEntry_fields now data))"
    by (auto simp: validate_errors_date validate_errors_emoji)
  then have "validate_errors tza (MoodEntry_fields now data) \<noteq> []" by auto
  then show "MoodEntry_new tza now data =
      Inl (ValidationError (join (ustr ''; '') (validate_errors tza (MoodEntry_fields now data))))"
    by (rule MoodEntry_new_invalid)
next
  assume "msg_date_format \<in> set (validate_errors tza (MoodEntry_fields now data))"
  then show "date data \<noteq> JStr []" by (auto simp: validate_errors_date)
next
  assume "msg_emoji_set \<in> set (validate_errors tza (MoodEntry_fields now data))"
  then show "emoji data \<noteq> JStr []" by (auto simp: validate_errors_emoji)
qed

theorem empty_field_is_missing_witness:
  "\<not> isValid (validateInput 0 []
       \<lparr> entry_id = JUndefined, date = JStr [], emoji = JStr [], entry_note = JUndefined,
         created_at = JUndefined, updated_at = JUndefined \<rparr>) \<and>
   msg_date_required \<in> set (errors (validateInput 0 []
       \<lparr> entry_id = JUndefined, date = JStr [], emoji = JStr [], entry_note = JUndefined,
         created_at = JUndefined, updated_at = JUndefined \<rparr>)) \<and>
   msg_emoji_set \<notin> set (validate_errors 0 (MoodEntry_fields []
       \<lparr> entry_id = JUndefined, date = JStr [], emoji = JStr [], entry_note = JUndefined,
         created_at = JUndefined, updated_at = JUndefined \<rparr>))"
  using empty_field_is_missing [of
      "\<lparr> entry_id = JUndefined, date = JStr [], emoji = JStr [], entry_note = JUndefined,
         created_at = JUndefined, updated_at = JUndefined \<rparr>" 0 "[]"]
  by simp

section \<open>Properties of the table and of create\<close>

lemma ustr_append: "ustr (a @ b) = ustr a @ ustr b"
  by (simp add: ustr_def)

lemma includes_str_mid: "includes_str (p @ m @ q) m"
  by (simp add: includes_str_def)

lemma includes_str_trans: "includes_str b a \<Longrightarrow> includes_str c b \<Longrightarrow> includes_str c a"
  unfolding includes_str_def by (rule sublist_order.order.trans)

lemma join_includes: "m \<in> set xs \<Longrightarrow> includes_str (join sep xs) m"
proof (induction sep xs rule: join.induct)
  case (1 sep)
  then show ?case by simp
next
  case (2 sep x)
  then show ?case by (simp add: includes_str_def)
next
  case (3 sep x y ys)
  show ?case
  proof (cases "m = x")
    case True
    then show ?thesis using includes_str_mid [of "[]" x] by simp
  next
    case False
    with 3 have "includes_str (join sep (y # ys)) m" by simp
    then have "sublist m (join sep (y # ys))" by (simp add: includes_str_def)
    moreover have "sublist (join sep (y # ys)) ((x @ sep) @ join sep (y # ys) @ [])"
      by (rule sublist_appendI)
    ultimately have "sublist m ((x @ sep) @ join sep (y # ys))"
      using sublist_order.order.trans by fastforce
    then show ?thesis by (simp add: includes_str_def)
  qed
qed

lemma sql_length_le: "sql_length s \<le> length s"
  by (induction s rule: sql_length.induct) auto

lemma unique_message_names_date:
  "includes_str (ustr ''SQLITE_CONSTRAINT: '' @ ustr ''UNIQUE constraint failed: mood_entries.date'')
     (ustr ''mood_entries.date'')"
proof -
  have "ustr ''SQLITE_CONSTRAINT: '' @ ustr ''UNIQUE constraint failed: mood_entries.date'' =
      ustr ''SQLITE_CONSTRAINT: UNIQUE constraint failed: '' @ ustr ''mood_entries.date'' @ []"
    by (simp add: ustr_def)
  then show ?thesis by (simp only: includes_str_mid)
qed

lemma validate_errors_Nil_iff:
  "validate_errors tza this = [] \<longleftrightarrow>
     truthy (date this) \<and> isValidDate_val tza (date this) \<and>
     emoji this \<in> set (map JStr allowedEmojis) \<and>
     (case entry_note this of JStr n \<Rightarrow> length n \<le> 500 | _ \<Rightarrow> True)"
proof -
  have "emoji this \<in> set (map JStr allowedEmojis) \<Longrightarrow> truthy (emoji this)"
    by (auto simp: allowedEmojis_def)
  then show ?thesis
    by (cases "entry_note this") (auto simp: validate_errors_def)
qed

lemma isValidDate_val_JStr: "isValidDate_val tza v \<Longrightarrow> \<exists>d. v = JStr d \<and> isValidDate tza d"
  by (cases v) simp_all

lemma getMoodEntryByDate_None_iff:
  "getMoodEntryByDate tza now d s = Inr None \<longleftrightarrow> \<not> list_ex (\<lambda>r. sql_eq (date r) d) (rows s)"
proof (cases "find (\<lambda>r. sql_eq (date r) d) (rows s)")
  case None
  moreover from None have "\<not> (\<exists>r \<in> set (rows s). sql_eq (date r) d)"
    by (simp add: find_None_iff)
  ultimately show ?thesis
    by (simp add: getMoodEntryByDate_def db_get_by_date_def list_ex_iff)
next
  case (Some r)
  then have "\<exists>r \<in> set (rows s). sql_eq (date r) d"
    by (auto simp: find_Some_iff)
  then show ?thesis
    using Some
    by (simp add: getMoodEntryByDate_def db_get_by_date_def list_ex_iff split: sum.splits)
qed

lemma db_insert_ok:
  assumes "validate_errors tza e = []"
    and "\<not> list_ex (\<lambda>r. sql_eq (date r) (date e)) (rows s)"
  shows "db_insert e s =
     Inr (\<lparr> lastID = Suc (seq s), changes = 1 \<rparr>,
          \<lparr> rows = rows s @ [e \<lparr> entry_id := JNum (int (Suc (seq s))) \<rparr>], seq = Suc (seq s) \<rparr>)"
proof -
  from assms(1) have v: "truthy (date e)" "emoji e \<in> set (map JStr allowedEmojis)"
    "(case entry_note e of JStr n \<Rightarrow> length n \<le> 500 | _ \<Rightarrow> True)"
    by (simp_all add: validate_errors_Nil_iff)
  have 1: "date e \<noteq> JNull" "date e \<noteq> JUndefined" using v(1) by auto
  have 2: "emoji e \<noteq> JNull" "emoji e \<noteq> JUndefined" using v(2) by auto
  have 3: "\<not> (case entry_note e of JStr n \<Rightarrow> sql_length n > 500 | _ \<Rightarrow> False)"
    using v(3) sql_length_le by (cases "entry_note e") (auto intro: le_trans simp: not_less)
  show ?thesis
    using 1 2 3 v(2) assms(2) by (simp add: db_insert_def Let_def)
qed

lemma db_insert_duplicate:
  assumes "validate_errors tza e = []"
    and "list_ex (\<lambda>r. sql_eq (date r) (date e)) (rows s)"
  shows "db_insert e s = Inl (constraint_failed ''UNIQUE constraint failed: mood_entries.date'')"
proof -
  from assms(1) have v: "truthy (date e)" "emoji e \<in> set (map JStr allowedEmojis)"
    "(case entry_note e of JStr n \<Rightarrow> length n \<le> 500 | _ \<Rightarrow> True)"
    by (simp_all add: validate_errors_Nil_iff)
  have 1: "date e \<noteq> JNull" "date e \<noteq> JUndefined" using v(1) by auto
  have 2: "emoji e \<noteq> JNull" "emoji e \<noteq> JUndefined" using v(2) by auto
  have 3: "\<not> (case entry_note e of JStr n \<Rightarrow> sql_length n > 500 | _ \<Rightarrow> False)"
    using v(3) sql_length_le by (cases "entry_note e") (auto intro: le_trans simp: not_less)
  show ?thesis
    using 1 2 3 v(2) assms(2) by (simp add: db_insert_def Let_def)
qed

lemma createMoodEntry_insert_ok:
  assumes "validate_errors tza e = []"
    and "\<not> list_ex (\<lambda>r. sql_eq (date r) (date e)) (rows s)"
  shows "createMoodEntry_insert e s =
     (Inr (e \<lparr> entry_id := JNum (int (Suc (seq s))) \<rparr>),
      \<lparr> rows = rows s @ [e \<lparr> entry_id := JNum (int (Suc (seq s))) \<rparr>], seq = Suc (seq s) \<rparr>)"
  by (simp add: createMoodEntry_insert_def db_insert_ok [OF assms])

lemma createMoodEntry_insert_duplicate:
  assumes "validate_errors tza e = []"
    and "list_ex (\<lambda>r. sql_eq (date r) (date e)) (rows s)"
  shows "createMoodEntry_insert e s = (Inl (duplicate_error (date e)), s)"
  using unique_message_names_date
  by (simp add: createMoodEntry_insert_def db_insert_duplicate [OF assms] constraint_failed_def)

lemma createMoodEntry_steps_invalid:
  assumes "validate_errors tza (MoodEntry_fields now moodData) \<noteq> []"
  shows "createMoodEntry_steps tza now moodData s_check s_insert =
     (Inl (ValidationError
        (join (ustr ''; '') (validate_errors tza (MoodEntry_fields now moodData)))), s_insert)"
  by (simp add: createMoodEntry_steps_def MoodEntry_new_invalid [OF assms])

lemma createMoodEntry_steps_valid:
  assumes "validate_errors tza (MoodEntry_fields now moodData) = []"
  shows "createMoodEntry_steps tza now moodData s_check s_insert =
     (case getMoodEntryByDate tza now (date moodData) s_check of
        Inl e \<Rightarrow> (Inl e, s_insert)
      | Inr (Some existing) \<Rightarrow> (Inl (duplicate_error (date moodData)), s_insert)
      | Inr None \<Rightarrow> createMoodEntry_insert (MoodEntry_fields now moodData) s_insert)"
  by (simp add: createMoodEntry_steps_def MoodEntry_new_valid [OF assms]
      split: sum.splits option.splits)

lemma MoodEntry_fields_note_long:
  "(case entry_note (MoodEntry_fields now a) of JStr n \<Rightarrow> length n > 500 | _ \<Rightarrow> False) =
   (case entry_note a of JStr n \<Rightarrow> length n > 500 | _ \<Rightarrow> False)"
  by (cases "entry_note a") (auto simp: MoodEntry_fields_def default_null_def)

lemma MoodEntry_fields_note_JStr:
  "n \<noteq> [] \<Longrightarrow> entry_note a = JStr n \<Longrightarrow> entry_note (MoodEntry_fields now a) = JStr n"
  by (simp add: MoodEntry_fields_def default_null_def)

lemma invalid_candidate_iff:
  "invalid_candidate tza a \<longleftrightarrow> validate_errors tza (MoodEntry_fields now a) \<noteq> []"
proof -
  have "emoji a \<in> set (map JStr allowedEmojis) \<Longrightarrow> truthy (emoji a)"
    by (auto simp: allowedEmojis_def)
  then show ?thesis
    using MoodEntry_fields_note_long [of now a]
    by (cases "entry_note (MoodEntry_fields now a)"; cases "entry_note a")
      (auto simp: invalid_candidate_def validate_errors_Nil_iff)
qed

lemma createMoodEntry_invalid:
  assumes "invalid_candidate tza moodData"
  shows "createMoodEntry tza now moodData s =
           (Inl (ValidationError
              (join (ustr ''; '') (validate_errors tza (MoodEntry_fields now moodData)))),
            s)"
proof -
  have "validate_errors tza (MoodEntry_fields now moodData) \<noteq> []"
    using assms by (simp add: invalid_candidate_iff [of tza moodData now])
  then show ?thesis
    by (simp add: createMoodEntry_def createMoodEntry_steps_invalid)
qed

lemma note_message_reported:
  assumes "entry_note moodData = JStr n" and "length n > 500"
  shows "msg_note_length \<in> set (validate_errors tza (MoodEntry_fields now moodData))"
proof -
  have "n \<noteq> []" using assms(2) by auto
  then have "entry_note (MoodEntry_fields now moodData) = JStr n"
    using assms(1) by (intro MoodEntry_fields_note_JStr)
  then show ?thesis using assms(2) by (simp add: validate_errors_note)
qed

lemmas date_eval = isValidDate_iff calendarDate_def dateRegex_def realDate_def DaysInMonth_def
  DaysInYear_def dateYear_def dateMonth_def dateDay_def Number_def ustr_def isDigit_def
  hyphen_def msPerDay_def

section \<open>Create rejects an invalid candidate\<close>

text \<open>
  Claim C3: for every invalid candidate, create fails with a \<open>ValidationError\<close> whose
  message is the messages of all the violated rules joined with \<open>; \<close>, and the table is
  neither read nor changed: the result is the same whatever the table holds, and the
  table is returned as it was. Every violated rule has its message in the joined text.
\<close>

theorem create_invalid_candidate:
  assumes "invalid_candidate tza moodData"
  shows "createMoodEntry_steps tza now moodData s_check s_insert =
           (Inl (ValidationError
              (join (ustr ''; '') (validate_errors tza (MoodEntry_fields now moodData)))),
            s_insert) \<and>
         createMoodEntry tza now moodData s =
           (Inl (ValidationError
              (join (ustr ''; '') (validate_errors tza (MoodEntry_fields now moodData)))),
            s) \<and>
         (\<not> truthy (date moodData) \<longrightarrow>
            includes_str
              (join (ustr ''; '') (validate_errors tza (MoodEntry_fields now moodData)))
              msg_date_required) \<and>
         (truthy (date moodData) \<and> \<not> isValidDate_val tza (date moodData) \<longrightarrow>
            includes_str
              (join (ustr ''; '') (validate_errors tza (MoodEntry_fields now moodData)))
              msg_date_format) \<and>
         (\<not> truthy (emoji moodData) \<longrightarrow>
            includes_str
              (join (ustr ''; '') (validate_errors tza (MoodEntry_fields now moodData)))
              msg_emoji_required) \<and>
         (truthy (emoji moodData) \<and> emoji moodData \<notin> set (map JStr allowedEmojis) \<longrightarrow>
            includes_str
              (join (ustr ''; '') (validate_errors tza (MoodEntry_fields now moodData)))
              msg_emoji_set) \<and>
         ((case entry_note moodData of JStr n \<Rightarrow> length n > 500 | _ \<Rightarrow> False) \<longrightarrow>
            includes_str
              (join (ustr ''; '') (validate_errors tza (MoodEntry_fields now moodData)))
              msg_note_length)"
proof -
  let ?errs = "validate_errors tza (MoodEntry_fields now moodData)"
  have ne: "?errs \<noteq> []"
    using assms by (simp add: invalid_candidate_iff [of tza moodData now])
  have nl: "msg_note_length \<in> set ?errs"
    if "case entry_note moodData of JStr n \<Rightarrow> length n > 500 | _ \<Rightarrow> False"
    using that MoodEntry_fields_note_long [of now moodData]
    by (cases "entry_note (MoodEntry_fields now moodData)") (auto simp: validate_errors_note)
  show ?thesis
    using createMoodEntry_steps_invalid [OF ne] nl
    by (auto simp: createMoodEntry_def validate_errors_date validate_errors_emoji
        intro!: join_includes)
qed

theorem create_invalid_candidate_witness:
  "invalid_candidate 0
     \<lparr> entry_id = JUndefined, date = JStr [], emoji = JStr (ustr ''x''),
       entry_note = JStr (replicate 501 0x61), created_at = JUndefined,
       updated_at = JUndefined \<rparr> \<and>
   createMoodEntry 0 (ustr ''2025-09-22T10:00:00.000Z'')
     \<lparr> entry_id = JUndefined, date = JStr [], emoji = JStr (ustr ''x''),
       entry_note = JStr (replicate 501 0x61), created_at = JUndefined,
       updated_at = JUndefined \<rparr>
     \<lparr> rows = [], seq = 0 \<rparr> =
   (Inl (ValidationError
      (join (ustr ''; '') [msg_date_required, msg_emoji_set, msg_note_length])),
    \<lparr> rows = [], seq = 0 \<rparr>)"
proof -
  let ?c = "\<lparr> entry_id = JUndefined, date = JStr [], emoji = JStr (ustr ''x''),
       entry_note = JStr (replicate 501 0x61), created_at = JUndefined,
       updated_at = JUndefined \<rparr>"
  have inv: "invalid_candidate 0 ?c"
    by (simp add: invalid_candidate_def)
  have errs: "validate_errors 0 (MoodEntry_fields (ustr ''2025-09-22T10:00:00.000Z'') ?c) =
      [msg_date_required, msg_emoji_set, msg_note_length]"
    by (simp add: validate_errors_def MoodEntry_fields_def default_null_def allowedEmojis_def
        ustr_def)
  show ?thesis
    using create_invalid_candidate [OF inv, of "ustr ''2025-09-22T10:00:00.000Z''"
        "\<lparr> rows = [], seq = 0 \<rparr>" "\<lparr> rows = [], seq = 0 \<rparr>" "\<lparr> rows = [], seq = 0 \<rparr>"]
      inv
    by (simp only: errs)
qed

section \<open>The boundary of the note length\<close>

text \<open>
  Claim C9: create succeeds for a note of exactly 500 characters (the candidate otherwise
  valid, its date free) and stores a row with that note; for any note of more than 500
  characters it fails with a message that names the 500-character limit, and the table is
  unchanged.
\<close>

theorem note_length_boundary:
  "(entry_note moodData = JStr n \<and> length n = 500 \<and>
    isValidDate_val tza (date moodData) \<and> emoji moodData \<in> set (map JStr allowedEmojis) \<and>
    getMoodEntryByDate tza now (date moodData) s = Inr None \<longrightarrow>
      (\<exists>e. createMoodEntry tza now moodData s =
              (Inr e, \<lparr> rows = rows s @ [e], seq = Suc (seq s) \<rparr>) \<and>
           entry_note e = JStr n)) \<and>
   (entry_note moodData = JStr n \<and> length n > 500 \<longrightarrow>
      (\<exists>msg. createMoodEntry tza now moodData s = (Inl (ValidationError msg), s) \<and>
             includes_str msg msg_note_length \<and> includes_str msg (ustr ''500'')))"
proof (intro conjI impI)
  assume a: "entry_note moodData = JStr n \<and> length n = 500 \<and>
    isValidDate_val tza (date moodData) \<and> emoji moodData \<in> set (map JStr allowedEmojis) \<and>
    getMoodEntryByDate tza now (date moodData) s = Inr None"
  let ?e = "MoodEntry_fields now moodData"
  have n: "entry_note ?e = JStr n"
    using a by (intro MoodEntry_fields_note_JStr) auto
  have tr: "truthy (date moodData)"
    using a isValidDate_val_JStr [of tza "date moodData"]
    by (auto simp: isValidDate_iff calendarDate_def dateRegex_def)
  have ok: "validate_errors tza ?e = []"
    using a n tr by (simp add: validate_errors_Nil_iff)
  have free: "\<not> list_ex (\<lambda>r. sql_eq (date r) (date ?e)) (rows s)"
    using a by (simp add: getMoodEntryByDate_None_iff)
  show "\<exists>e. createMoodEntry tza now moodData s =
              (Inr e, \<lparr> rows = rows s @ [e], seq = Suc (seq s) \<rparr>) \<and>
           entry_note e = JStr n"
    using a n createMoodEntry_insert_ok [OF ok free]
    by (simp add: createMoodEntry_def createMoodEntry_steps_valid [OF ok])
next
  assume a: "entry_note moodData = JStr n \<and> length n > 500"
  then have inv: "invalid_candidate tza moodData"
    by (simp add: invalid_candidate_def)
  let ?msg = "join (ustr ''; '') (validate_errors tza (MoodEntry_fields now moodData))"
  have 1: "createMoodEntry tza now moodData s = (Inl (ValidationError ?msg), s)"
    using inv by (rule createMoodEntry_invalid)
  have 2: "includes_str ?msg msg_note_length"
    using a by (intro join_includes note_message_reported [of moodData n]) simp_all
  have "msg_note_length = ustr ''note must be '' @ ustr ''500'' @ ustr '' characters or less''"
    by (simp add: msg_note_length_def ustr_def)
  then have "includes_str msg_note_length (ustr ''500'')"
    using includes_str_mid [of "ustr ''note must be ''" "ustr ''500''" "ustr '' characters or less''"]
    by simp
  then have "includes_str ?msg (ustr ''500'')"
    using 2 by (rule includes_str_trans)
  with 1 2 show "\<exists>msg. createMoodEntry tza now moodData s = (Inl (ValidationError msg), s) \<and>
             includes_str msg msg_note_length \<and> includes_str msg (ustr ''500'')"
    by blast
qed


theorem note_length_boundary_witness:
  "(\<exists>e. createMoodEntry 0 (ustr ''2025-09-22T10:00:00.000Z'')
          \<lparr> entry_id = JUndefined, date = JStr (ustr ''2025-09-22''),
            emoji = JStr [0xD83D, 0xDE0A], entry_note = JStr (replicate 500 0x61),
            created_at = JUndefined, updated_at = JUndefined \<rparr>
          \<lparr> rows = [], seq = 0 \<rparr> =
        (Inr e, \<lparr> rows = [e], seq = 1 \<rparr>) \<and>
        entry_note e = JStr (replicate 500 0x61)) \<and>
   (\<exists>msg. createMoodEntry 0 (ustr ''2025-09-22T10:00:00.000Z'')
          \<lparr> entry_id = JUndefined, date = JStr (ustr ''2025-09-22''),
            emoji = JStr [0xD83D, 0xDE0A], entry_note = JStr (replicate 501 0x61),
            created_at = JUndefined, updated_at = JUndefined \<rparr>
          \<lparr> rows = [], seq = 0 \<rparr> =
        (Inl (ValidationError msg), \<lparr> rows = [], seq = 0 \<rparr>) \<and>
        includes_str msg msg_note_length \<and> includes_str msg (ustr ''500''))"
proof -
  have d: "isValidDate_val 0 (JStr (ustr ''2025-09-22''))"
    by (simp add: date_eval)
  have e: "JStr [0xD83D, 0xDE0A] \<in> set (map JStr allowedEmojis)"
    by (simp add: allowedEmojis_def)
  have g: "getMoodEntryByDate 0 (ustr ''2025-09-22T10:00:00.000Z'') (JStr (ustr ''2025-09-22''))
      \<lparr> rows = [], seq = 0 \<rparr> = Inr None"
    by (simp add: getMoodEntryByDate_def db_get_by_date_def)
  show ?thesis
    using note_length_boundary [of
        "\<lparr> entry_id = JUndefined, date = JStr (ustr ''2025-09-22''),
           emoji = JStr [0xD83D, 0xDE0A], entry_note = JStr (replicate 500 0x61),
           created_at = JUndefined, updated_at = JUndefined \<rparr>"
        "replicate 500 0x61" 0 "ustr ''2025-09-22T10:00:00.000Z''" "\<lparr> rows = [], seq = 0 \<rparr>"]
      note_length_boundary [of
        "\<lparr> entry_id = JUndefined, date = JStr (ustr ''2025-09-22''),
           emoji = JStr [0xD83D, 0xDE0A], entry_note = JStr (replicate 501 0x61),
           created_at = JUndefined, updated_at = JUndefined \<rparr>"
        "replicate 501 0x61" 0 "ustr ''2025-09-22T10:00:00.000Z''" "\<lparr> rows = [], seq = 0 \<rparr>"]
      d e g
    by simp
qed

section \<open>Properties of create and getByDate\<close>

lemma validate_errors_cong:
  "date a = date b \<Longrightarrow> emoji a = emoji b \<Longrightarrow>
   (case entry_note a of JStr n \<Rightarrow> length n > 500 | _ \<Rightarrow> False) =
   (case entry_note b of JStr n \<Rightarrow> length n > 500 | _ \<Rightarrow> False) \<Longrightarrow>
   validate_errors tza a = validate_errors tza b"
  by (cases "entry_note a"; cases "entry_note b") (auto simp: validate_errors_def)

lemma validate_errors_fields:
  "validate_errors tza (MoodEntry_fields now a) = validate_errors tza a"
  by (rule validate_errors_cong) (simp_all add: MoodEntry_fields_note_long)

lemma validate_errors_id:
  "validate_errors tza (e \<lparr> entry_id := i \<rparr>) = validate_errors tza e"
  by (rule validate_errors_cong) simp_all

lemma fromDbRow_eq: "fromDbRow tza now r = MoodEntry_new tza now r"
proof -
  have eta: "\<lparr> entry_id = entry_id r, date = date r, emoji = emoji r,
         entry_note = entry_note r, created_at = created_at r,
         updated_at = updated_at r \<rparr> = r"
    by (cases r) simp
  show ?thesis by (simp only: fromDbRow_def eta)
qed

lemma fromDbRow_valid:
  "validate_errors tza r = [] \<Longrightarrow> fromDbRow tza now r = Inr (MoodEntry_fields now r)"
  by (simp add: fromDbRow_eq MoodEntry_new_valid validate_errors_fields)

lemma fromDbRow_invalid:
  "validate_errors tza r \<noteq> [] \<Longrightarrow> \<exists>e. fromDbRow tza now r = Inl e"
  by (simp add: fromDbRow_eq MoodEntry_new_invalid validate_errors_fields)



lemma createMoodEntry_cases:
  "createMoodEntry tza now moodData s =
     (if validate_errors tza moodData \<noteq> []
      then (Inl (ValidationError (join (ustr ''; '') (validate_errors tza moodData))), s)
      else
        (case getMoodEntryByDate tza now (date moodData) s of
           Inl e \<Rightarrow> (Inl e, s)
         | Inr (Some existing) \<Rightarrow> (Inl (duplicate_error (date moodData)), s)
         | Inr None \<Rightarrow>
             (Inr ((MoodEntry_fields now moodData) \<lparr> entry_id := JNum (int (Suc (seq s))) \<rparr>),
              \<lparr> rows = rows s @
                  [(MoodEntry_fields now moodData) \<lparr> entry_id := JNum (int (Suc (seq s))) \<rparr>],
                seq = Suc (seq s) \<rparr>)))"
proof (cases "validate_errors tza moodData = []")
  case False
  then show ?thesis
    using createMoodEntry_steps_invalid [of tza now moodData s s]
    by (simp add: createMoodEntry_def validate_errors_fields)
next
  case True
  then have ok: "validate_errors tza (MoodEntry_fields now moodData) = []"
    by (simp add: validate_errors_fields)
  show ?thesis
  proof (cases "getMoodEntryByDate tza now (date moodData) s")
    case (Inl e)
    then show ?thesis
      using True by (simp add: createMoodEntry_def createMoodEntry_steps_valid [OF ok])
  next
    case (Inr x)
    show ?thesis
    proof (cases x)
      case None
      then have "\<not> list_ex (\<lambda>r. sql_eq (date r) (date (MoodEntry_fields now moodData))) (rows s)"
        using Inr by (simp add: getMoodEntryByDate_None_iff)
      then show ?thesis
        using True Inr None createMoodEntry_insert_ok [OF ok]
        by (simp add: createMoodEntry_def createMoodEntry_steps_valid [OF ok])
    next
      case (Some a)
      then show ?thesis
        using True Inr by (simp add: createMoodEntry_def createMoodEntry_steps_valid [OF ok])
    qed
  qed
qed



section \<open>Create, then getByDate\<close>




section \<open>Properties of delete and of the reachable tables\<close>







lemma valid_date_text: "validate_errors tza r = [] \<Longrightarrow> \<exists>d. date r = JStr d"
  using isValidDate_val_JStr [of tza "date r"] by (auto simp: validate_errors_Nil_iff)

lemma sql_eq_text: "sql_eq (JStr a) v \<longleftrightarrow> v = JStr a"
  by (auto simp: sql_eq_def)

lemma row_normal_new:
  assumes "now \<noteq> []"
  shows "row_normal ((MoodEntry_fields now a) \<lparr> entry_id := JNum i \<rparr>)"
  using assms
  by (auto simp: row_normal_def MoodEntry_fields_def default_null_def normal_note_def js_or_def Let_def)


lemma store_inv_insert:
  assumes "store_inv tza s" and "validate_errors tza e = []" and "row_normal (e \<lparr> entry_id := i \<rparr>)"
    and "\<not> list_ex (\<lambda>r. sql_eq (date r) (date e)) (rows s)"
  shows "store_inv tza \<lparr> rows = rows s @ [e \<lparr> entry_id := i \<rparr>], seq = n \<rparr>"
proof -
  obtain d where d: "date e = JStr d" using valid_date_text [OF assms(2)] by blast
  have "\<forall>r \<in> set (rows s). date r \<noteq> JStr d"
  proof
    fix r assume r: "r \<in> set (rows s)"
    then obtain d' where "date r = JStr d'"
      using assms(1) valid_date_text [of tza r] by (auto simp: store_inv_def list_all_iff)
    moreover have "\<not> sql_eq (date r) (JStr d)"
      using assms(4) r d by (auto simp: list_ex_iff)
    ultimately show "date r \<noteq> JStr d" by (auto simp: sql_eq_text)
  qed
  then have "JStr d \<notin> set (map date (rows s))" by auto
  then show ?thesis
    using assms(1,2,3) d by (simp add: store_inv_def validate_errors_id)
qed

lemma store_inv_create:
  assumes "store_inv tza s" and "now \<noteq> []"
  shows "store_inv tza (snd (createMoodEntry_steps tza now moodData s_check s))"
proof (cases "validate_errors tza (MoodEntry_fields now moodData) = []")
  case False
  then show ?thesis using assms(1) by (simp add: createMoodEntry_steps_invalid)
next
  case ok: True
  show ?thesis
  proof (cases "list_ex (\<lambda>r. sql_eq (date r) (date (MoodEntry_fields now moodData))) (rows s)")
    case True
    then show ?thesis
      using assms(1) createMoodEntry_insert_duplicate [OF ok True]
      by (simp add: createMoodEntry_steps_valid [OF ok] split: sum.splits option.splits)
  next
    case False
    then show ?thesis
      using assms(1) createMoodEntry_insert_ok [OF ok False]
        store_inv_insert [OF assms(1) ok row_normal_new [OF assms(2)] False]
      by (simp add: createMoodEntry_steps_valid [OF ok] split: sum.splits option.splits)
  qed
qed

lemma store_inv_filter: "store_inv tza s \<Longrightarrow> store_inv tza (s \<lparr> rows := filter P (rows s) \<rparr>)"
  by (simp add: store_inv_def distinct_map_filter list_all_iff)

lemma store_inv_delete:
  assumes "store_inv tza s"
  shows "store_inv tza (snd (deleteMoodEntryByDate tza now d s))"
  using assms store_inv_filter [OF assms, of "\<lambda>r. \<not> sql_eq (date r) d"]
  by (simp add: deleteMoodEntryByDate_def db_delete_by_date_def split: sum.splits option.splits)

lemma reachable_inv: "reachable tza s \<Longrightarrow> store_inv tza s"
proof (induction rule: reachable.induct)
  case init
  show ?case by (simp add: store_inv_def)
next
  case (create s now moodData s_check)
  then show ?case by (simp add: store_inv_create)
next
  case (delete s now d)
  then show ?case by (simp add: store_inv_delete)
qed

lemma distinct_filter_le_1:
  "distinct (map f xs) \<Longrightarrow> length (filter (\<lambda>x. f x = d) xs) \<le> 1"
proof (induction xs)
  case Nil
  show ?case by simp
next
  case (Cons x xs)
  show ?case
  proof (cases "f x = d")
    case True
    then have "d \<notin> f ` set xs" using Cons.prems by auto
    then have "filter (\<lambda>x. f x = d) xs = []" by (auto simp: filter_empty_conv)
    then show ?thesis using True by simp
  next
    case False
    then show ?thesis using Cons by simp
  qed
qed

lemma store_inv_at_most_one:
  assumes "store_inv tza s"
  shows "length (filter (\<lambda>r. sql_eq (date r) d) (rows s)) \<le> 1"
proof -
  have "length (filter (\<lambda>r. sql_eq (date r) d) (rows s)) \<le>
      length (filter (\<lambda>r. date r = d) (rows s))"
  proof -
    have "filter (\<lambda>r. sql_eq (date r) d) (rows s) =
        filter (\<lambda>r. sql_eq (date r) d) (filter (\<lambda>r. date r = d) (rows s))"
      by (auto simp: sql_eq_def intro: filter_cong)
    then show ?thesis by (metis length_filter_le)
  qed
  also have "\<dots> \<le> 1"
    using assms by (intro distinct_filter_le_1) (simp add: store_inv_def)
  finally show ?thesis .
qed

lemma getMoodEntryByDate_present:
  assumes "store_inv tza s" and "list_ex (\<lambda>r. sql_eq (date r) d) (rows s)"
  shows "\<exists>e. getMoodEntryByDate tza now d s = Inr (Some e)"
proof -
  from assms(2) obtain r where r: "find (\<lambda>r. sql_eq (date r) d) (rows s) = Some r"
    by (cases "find (\<lambda>r. sql_eq (date r) d) (rows s)") (auto simp: find_None_iff list_ex_iff)
  then have "r \<in> set (rows s)" by (auto simp: find_Some_iff)
  then have "validate_errors tza r = []"
    using assms(1) by (simp add: store_inv_def list_all_iff)
  then show ?thesis
    using r by (simp add: getMoodEntryByDate_def db_get_by_date_def fromDbRow_valid)
qed

lemma duplicate_create:
  assumes "reachable tza s" and "\<not> invalid_candidate tza moodData"
    and "list_ex (\<lambda>r. sql_eq (date r) (date moodData)) (rows s)"
  shows "createMoodEntry tza now moodData s = (Inl (duplicate_error (date moodData)), s)"
    and "getMoodEntryByDate tza now (date moodData) s_check = Inr None \<Longrightarrow>
         createMoodEntry_steps tza now moodData s_check s =
           (Inl (duplicate_error (date moodData)), s)"
    and "length (filter (\<lambda>r. sql_eq (date r) (date moodData)) (rows s)) = 1"
proof -
  have inv: "store_inv tza s" using assms(1) by (rule reachable_inv)
  have ok: "validate_errors tza (MoodEntry_fields now moodData) = []"
    using assms(2) by (simp add: invalid_candidate_iff [of tza moodData now])
  obtain e where "getMoodEntryByDate tza now (date moodData) s = Inr (Some e)"
    using getMoodEntryByDate_present [OF inv assms(3)] by blast
  then show "createMoodEntry tza now moodData s = (Inl (duplicate_error (date moodData)), s)"
    by (simp add: createMoodEntry_def createMoodEntry_steps_valid [OF ok])
  have ex: "list_ex (\<lambda>r. sql_eq (date r) (date (MoodEntry_fields now moodData))) (rows s)"
    using assms(3) by simp
  show "createMoodEntry_steps tza now moodData s_check s =
           (Inl (duplicate_error (date moodData)), s)"
    if "getMoodEntryByDate tza now (date moodData) s_check = Inr None"
    using that createMoodEntry_insert_duplicate [OF ok ex]
    by (simp add: createMoodEntry_steps_valid [OF ok])
  have "filter (\<lambda>r. sql_eq (date r) (date moodData)) (rows s) \<noteq> []"
    using assms(3) by (auto simp: list_ex_iff filter_empty_conv)
  then have "1 \<le> length (filter (\<lambda>r. sql_eq (date r) (date moodData)) (rows s))"
    by (cases "filter (\<lambda>r. sql_eq (date r) (date moodData)) (rows s)") simp_all
  then show "length (filter (\<lambda>r. sql_eq (date r) (date moodData)) (rows s)) = 1"
    using store_inv_at_most_one [OF inv, of "date moodData"] by simp
qed




lemma example_create:
  "createMoodEntry 0 (ustr ''2025-09-22T10:00:00.000Z'')
     \<lparr> entry_id = JUndefined, date = JStr (ustr ''2025-09-22''),
       emoji = JStr [0xD83D, 0xDE22], entry_note = JUndefined,
       created_at = JUndefined, updated_at = JUndefined \<rparr>
     \<lparr> rows = [], seq = 0 \<rparr> =
   (Inr \<lparr> entry_id = JNum 1, date = JStr (ustr ''2025-09-22''),
       emoji = JStr [0xD83D, 0xDE22], entry_note = JNull,
       created_at = JStr (ustr ''2025-09-22T10:00:00.000Z''),
       updated_at = JStr (ustr ''2025-09-22T10:00:00.000Z'') \<rparr>,
    \<lparr> rows = [\<lparr> entry_id = JNum 1, date = JStr (ustr ''2025-09-22''),
       emoji = JStr [0xD83D, 0xDE22], entry_note = JNull,
       created_at = JStr (ustr ''2025-09-22T10:00:00.000Z''),
       updated_at = JStr (ustr ''2025-09-22T10:00:00.000Z'') \<rparr>], seq = 1 \<rparr>)"
proof -
  have v: "validate_errors 0 \<lparr> entry_id = JUndefined, date = JStr (ustr ''2025-09-22''),
       emoji = JStr [0xD83D, 0xDE22], entry_note = JUndefined,
       created_at = JUndefined, updated_at = JUndefined \<rparr> = []"
    by (simp add: validate_errors_Nil_iff allowedEmojis_def date_eval)
  have g: "getMoodEntryByDate 0 (ustr ''2025-09-22T10:00:00.000Z'') (JStr (ustr ''2025-09-22'')) \<lparr> rows = [], seq = 0 \<rparr> = Inr None"
    by (simp add: getMoodEntryByDate_def db_get_by_date_def)
  have f: "MoodEntry_fields (ustr ''2025-09-22T10:00:00.000Z'') \<lparr> entry_id = JUndefined, date = JStr (ustr ''2025-09-22''),
       emoji = JStr [0xD83D, 0xDE22], entry_note = JUndefined,
       created_at = JUndefined, updated_at = JUndefined \<rparr> \<lparr> entry_id := JNum 1 \<rparr> =
      \<lparr> entry_id = JNum 1, date = JStr (ustr ''2025-09-22''),
       emoji = JStr [0xD83D, 0xDE22], entry_note = JNull,
       created_at = JStr (ustr ''2025-09-22T10:00:00.000Z''),
       updated_at = JStr (ustr ''2025-09-22T10:00:00.000Z'') \<rparr>"
    by (simp add: MoodEntry_fields_def default_null_def js_or_def ustr_def)
  show ?thesis
    using v g f by (simp add: createMoodEntry_cases)
qed

section \<open>At most one entry per date\<close>

text \<open>
  Claim C2: in every table the repository can produce, a date has at most one row. A
  create of a valid candidate whose date already has a row fails with the
  \<open>DUPLICATE_DATE\<close> error: through the lookup when the lookup sees the row, and, when the
  lookup read a table without the row (a create that ran in between), through the
  uniqueness failure of the insert, which is translated into the same error. The table is
  unchanged and holds exactly one row for the date.
\<close>

theorem one_entry_per_date:
  assumes "reachable tza s"
  shows "(\<forall>d. length (filter (\<lambda>r. sql_eq (date r) d) (rows s)) \<le> 1) \<and>
     (\<not> invalid_candidate tza moodData \<and>
      list_ex (\<lambda>r. sql_eq (date r) (date moodData)) (rows s) \<longrightarrow>
        createMoodEntry tza now moodData s = (Inl (duplicate_error (date moodData)), s) \<and>
        (getMoodEntryByDate tza now (date moodData) s_check = Inr None \<longrightarrow>
           createMoodEntry_steps tza now moodData s_check s =
             (Inl (duplicate_error (date moodData)), s)) \<and>
        length (filter (\<lambda>r. sql_eq (date r) (date moodData)) (rows s)) = 1)"
  using store_inv_at_most_one [OF reachable_inv [OF assms]] duplicate_create [OF assms]
  by blast

theorem one_entry_per_date_witness:
  "reachable 0 \<lparr> rows = [\<lparr> entry_id = JNum 1, date = JStr (ustr ''2025-09-22''),
       emoji = JStr [0xD83D, 0xDE22], entry_note = JNull,
       created_at = JStr (ustr ''2025-09-22T10:00:00.000Z''),
       updated_at = JStr (ustr ''2025-09-22T10:00:00.000Z'') \<rparr>], seq = 1 \<rparr> \<and>
   \<not> invalid_candidate 0
     \<lparr> entry_id = JUndefined, date = JStr (ustr ''2025-09-22''),
       emoji = JStr [0xD83D, 0xDE0A], entry_note = JStr (ustr ''again''),
       created_at = JUndefined, updated_at = JUndefined \<rparr> \<and>
   length (filter (\<lambda>r. sql_eq (date r) (JStr (ustr ''2025-09-22'')))
     (rows \<lparr> rows = [\<lparr> entry_id = JNum 1, date = JStr (ustr ''2025-09-22''),
       emoji = JStr [0xD83D, 0xDE22], entry_note = JNull,
       created_at = JStr (ustr ''2025-09-22T10:00:00.000Z''),
       updated_at = JStr (ustr ''2025-09-22T10:00:00.000Z'') \<rparr>], seq = 1 \<rparr>)) \<le> 1 \<and>
   createMoodEntry 0 (ustr ''2025-09-22T11:00:00.000Z'')
     \<lparr> entry_id = JUndefined, date = JStr (ustr ''2025-09-22''),
       emoji = JStr [0xD83D, 0xDE0A], entry_note = JStr (ustr ''again''),
       created_at = JUndefined, updated_at = JUndefined \<rparr>
     \<lparr> rows = [\<lparr> entry_id = JNum 1, date = JStr (ustr ''2025-09-22''),
       emoji = JStr [0xD83D, 0xDE22], entry_note = JNull,
       created_at = JStr (ustr ''2025-09-22T10:00:00.000Z''),
       updated_at = JStr (ustr ''2025-09-22T10:00:00.000Z'') \<rparr>], seq = 1 \<rparr> =
   (Inl (duplicate_error (JStr (ustr ''2025-09-22''))),
    \<lparr> rows = [\<lparr> entry_id = JNum 1, date = JStr (ustr ''2025-09-22''),
       emoji = JStr [0xD83D, 0xDE22], entry_note = JNull,
       created_at = JStr (ustr ''2025-09-22T10:00:00.000Z''),
       updated_at = JStr (ustr ''2025-09-22T10:00:00.000Z'') \<rparr>], seq = 1 \<rparr>) \<and>
   createMoodEntry_steps 0 (ustr ''2025-09-22T11:00:00.000Z'')
     \<lparr> entry_id = JUndefined, date = JStr (ustr ''2025-09-22''),
       emoji = JStr [0xD83D, 0xDE0A], entry_note = JStr (ustr ''again''),
       created_at = JUndefined, updated_at = JUndefined \<rparr>
     \<lparr> rows = [], seq = 0 \<rparr>
     \<lparr> rows = [\<lparr> entry_id = JNum 1, date = JStr (ustr ''2025-09-22''),
       emoji = JStr [0xD83D, 0xDE22], entry_note = JNull,
       created_at = JStr (ustr ''2025-09-22T10:00:00.000Z''),
       updated_at = JStr (ustr ''2025-09-22T10:00:00.000Z'') \<rparr>], seq = 1 \<rparr> =
   (Inl (duplicate_error (JStr (ustr ''2025-09-22''))),
    \<lparr> rows = [\<lparr> entry_id = JNum 1, date = JStr (ustr ''2025-09-22''),
       emoji = JStr [0xD83D, 0xDE22], entry_note = JNull,
       created_at = JStr (ustr ''2025-09-22T10:00:00.000Z''),
       updated_at = JStr (ustr ''2025-09-22T10:00:00.000Z'') \<rparr>], seq = 1 \<rparr>)"
proof -
  have r: "reachable 0 \<lparr> rows = [\<lparr> entry_id = JNum 1, date = JStr (ustr ''2025-09-22''),
       emoji = JStr [0xD83D, 0xDE22], entry_note = JNull,
       created_at = JStr (ustr ''2025-09-22T10:00:00.000Z''),
       updated_at = JStr (ustr ''2025-09-22T10:00:00.000Z'') \<rparr>], seq = 1 \<rparr>"
  proof -
    have "reachable 0 (snd (createMoodEntry_steps 0 (ustr ''2025-09-22T10:00:00.000Z'')
        \<lparr> entry_id = JUndefined, date = JStr (ustr ''2025-09-22''),
       emoji = JStr [0xD83D, 0xDE22], entry_note = JUndefined,
       created_at = JUndefined, updated_at = JUndefined \<rparr>
        \<lparr> rows = [], seq = 0 \<rparr> \<lparr> rows = [], seq = 0 \<rparr>))"
      by (rule reachable.create [OF reachable.init]) (simp add: ustr_def)
    then show ?thesis
      using example_create by (simp add: createMoodEntry_def)
  qed
  have v: "\<not> invalid_candidate 0 \<lparr> entry_id = JUndefined, date = JStr (ustr ''2025-09-22''),
       emoji = JStr [0xD83D, 0xDE0A], entry_note = JStr (ustr ''again''),
       created_at = JUndefined, updated_at = JUndefined \<rparr>"
    by (simp add: invalid_candidate_def allowedEmojis_def date_eval)
  have g: "getMoodEntryByDate 0 (ustr ''2025-09-22T11:00:00.000Z'') (JStr (ustr ''2025-09-22'')) \<lparr> rows = [], seq = 0 \<rparr> = Inr None"
    by (simp add: getMoodEntryByDate_def db_get_by_date_def)
  show ?thesis
    using one_entry_per_date [OF r, of
        "\<lparr> entry_id = JUndefined, date = JStr (ustr ''2025-09-22''),
       emoji = JStr [0xD83D, 0xDE0A], entry_note = JStr (ustr ''again''),
       created_at = JUndefined, updated_at = JUndefined \<rparr>" "ustr ''2025-09-22T11:00:00.000Z''" "\<lparr> rows = [], seq = 0 \<rparr>"] r v g
    by (simp add: sql_eq_def)
qed

section \<open>Delete by date\<close>



section \<open>Properties of the list query\<close>









lemma date_key_less: "date_key (JStr a) < date_key (JStr b) \<longleftrightarrow> a < b"
  by simp






section \<open>The page that list returns\<close>



section \<open>When list fails\<close>



section \<open>Properties of the statistics query\<close>
























section \<open>The statistics of a window of days\<close>



end
